theory Spec2Isabelle
  imports Complex_Main "HOL-Library.Sublist"
begin

section \<open>Mezopotamya.Travel backend: the request handlers of main.py\<close>

text \<open>
  The development embeds the handlers of \<^verbatim>\<open>mezopotamya-backend/main.py\<close>: the generation
  fallback chain (\<^verbatim>\<open>query_llm\<close>, \<^verbatim>\<open>generate_simple_response\<close>), the chat handler, the
  recommendation handler, document ingestion, search and deletion, and the gates of the
  itinerary and route handlers.  The SQLite database is an explicit state that every
  handler takes and returns; an exception is a value; the collaborators that main.py only
  imports (document processor, vector store, RAG service) and the HTTP call to the
  language model are parameters whose every call yields either an exception or a value.
\<close>

subsection \<open>Python strings\<close>

text \<open>
  A Python \<^verbatim>\<open>str\<close> is a sequence of Unicode code points, so a string is a list of
  naturals, one per code point.  \<open>ascii\<close> reads an ASCII literal; the Turkish letters of
  the source are written by code point (246 is o-diaeresis, 252 u-diaeresis, 231 c-cedilla,
  287 g-breve, 305 dotless i, 351 s-cedilla, 350 capital S-cedilla, 214 capital
  O-diaeresis; 39 is the apostrophe and 10 the line feed).
\<close>

type_synonym str = "nat list"

definition ascii :: "string \<Rightarrow> str" where
  "ascii s = map of_char s"

text \<open>
  \<^verbatim>\<open>str.lower()\<close> as CPython computes it (\<^verbatim>\<open>do_lower\<close> in \<^verbatim>\<open>unicodeobject.c\<close>), with
  the tables of Unicode 14.0.  Every code point but capital sigma is replaced by its full
  lower-case mapping, which is one code point except for capital I with dot above (304),
  which becomes two.  The mapping is a table of runs \<open>(lo, hi, step, target)\<close> in
  ascending order: the code points \<open>lo\<close>, \<open>lo + step\<close>, ... up to \<open>hi\<close> map to
  \<open>target\<close>, \<open>target + step\<close>, ...; every other code point is its own lower case.
\<close>

definition lower_runs :: "(nat \<times> nat \<times> nat \<times> nat) list" where
  "lower_runs =
     [(65, 90, 1, 97), (192, 214, 1, 224), (216, 222, 1, 248), (256, 302, 2, 257),
      (306, 310, 2, 307), (313, 327, 2, 314), (330, 374, 2, 331), (376, 376, 1, 255),
      (377, 381, 2, 378), (385, 385, 1, 595), (386, 388, 2, 387), (390, 390, 1, 596),
      (391, 391, 1, 392), (393, 394, 1, 598), (395, 395, 1, 396), (398, 398, 1, 477),
      (399, 399, 1, 601), (400, 400, 1, 603), (401, 401, 1, 402), (403, 403, 1, 608),
      (404, 404, 1, 611), (406, 406, 1, 617), (407, 407, 1, 616), (408, 408, 1, 409),
      (412, 412, 1, 623), (413, 413, 1, 626), (415, 415, 1, 629), (416, 420, 2, 417),
      (422, 422, 1, 640), (423, 423, 1, 424), (425, 425, 1, 643), (428, 428, 1, 429),
      (430, 430, 1, 648), (431, 431, 1, 432), (433, 434, 1, 650), (435, 437, 2, 436),
      (439, 439, 1, 658), (440, 440, 1, 441), (444, 444, 1, 445), (452, 452, 1, 454),
      (453, 453, 1, 454), (455, 455, 1, 457), (456, 456, 1, 457), (458, 458, 1, 460),
      (459, 475, 2, 460), (478, 494, 2, 479), (497, 497, 1, 499), (498, 500, 2, 499),
      (502, 502, 1, 405), (503, 503, 1, 447), (504, 542, 2, 505), (544, 544, 1, 414),
      (546, 562, 2, 547), (570, 570, 1, 11365), (571, 571, 1, 572), (573, 573, 1, 410),
      (574, 574, 1, 11366), (577, 577, 1, 578), (579, 579, 1, 384), (580, 580, 1, 649),
      (581, 581, 1, 652), (582, 590, 2, 583), (880, 882, 2, 881), (886, 886, 1, 887),
      (895, 895, 1, 1011), (902, 902, 1, 940), (904, 906, 1, 941), (908, 908, 1, 972),
      (910, 911, 1, 973), (913, 929, 1, 945), (931, 939, 1, 963), (975, 975, 1, 983),
      (984, 1006, 2, 985), (1012, 1012, 1, 952), (1015, 1015, 1, 1016),
      (1017, 1017, 1, 1010), (1018, 1018, 1, 1019), (1021, 1023, 1, 891),
      (1024, 1039, 1, 1104), (1040, 1071, 1, 1072), (1120, 1152, 2, 1121),
      (1162, 1214, 2, 1163), (1216, 1216, 1, 1231), (1217, 1229, 2, 1218),
      (1232, 1326, 2, 1233), (1329, 1366, 1, 1377), (4256, 4293, 1, 11520),
      (4295, 4295, 1, 11559), (4301, 4301, 1, 11565), (5024, 5103, 1, 43888),
      (5104, 5109, 1, 5112), (7312, 7354, 1, 4304), (7357, 7359, 1, 4349),
      (7680, 7828, 2, 7681), (7838, 7838, 1, 223), (7840, 7934, 2, 7841),
      (7944, 7951, 1, 7936), (7960, 7965, 1, 7952), (7976, 7983, 1, 7968),
      (7992, 7999, 1, 7984), (8008, 8013, 1, 8000), (8025, 8031, 2, 8017),
      (8040, 8047, 1, 8032), (8072, 8079, 1, 8064), (8088, 8095, 1, 8080),
      (8104, 8111, 1, 8096), (8120, 8121, 1, 8112), (8122, 8123, 1, 8048),
      (8124, 8124, 1, 8115), (8136, 8139, 1, 8050), (8140, 8140, 1, 8131),
      (8152, 8153, 1, 8144), (8154, 8155, 1, 8054), (8168, 8169, 1, 8160),
      (8170, 8171, 1, 8058), (8172, 8172, 1, 8165), (8184, 8185, 1, 8056),
      (8186, 8187, 1, 8060), (8188, 8188, 1, 8179), (8486, 8486, 1, 969),
      (8490, 8490, 1, 107), (8491, 8491, 1, 229), (8498, 8498, 1, 8526),
      (8544, 8559, 1, 8560), (8579, 8579, 1, 8580), (9398, 9423, 1, 9424),
      (11264, 11311, 1, 11312), (11360, 11360, 1, 11361), (11362, 11362, 1, 619),
      (11363, 11363, 1, 7549), (11364, 11364, 1, 637), (11367, 11371, 2, 11368),
      (11373, 11373, 1, 593), (11374, 11374, 1, 625), (11375, 11375, 1, 592),
      (11376, 11376, 1, 594), (11378, 11378, 1, 11379), (11381, 11381, 1, 11382),
      (11390, 11391, 1, 575), (11392, 11490, 2, 11393), (11499, 11501, 2, 11500),
      (11506, 11506, 1, 11507), (42560, 42604, 2, 42561), (42624, 42650, 2, 42625),
      (42786, 42798, 2, 42787), (42802, 42862, 2, 42803), (42873, 42875, 2, 42874),
      (42877, 42877, 1, 7545), (42878, 42886, 2, 42879), (42891, 42891, 1, 42892),
      (42893, 42893, 1, 613), (42896, 42898, 2, 42897), (42902, 42920, 2, 42903),
      (42922, 42922, 1, 614), (42923, 42923, 1, 604), (42924, 42924, 1, 609),
      (42925, 42925, 1, 620), (42926, 42926, 1, 618), (42928, 42928, 1, 670),
      (42929, 42929, 1, 647), (42930, 42930, 1, 669), (42931, 42931, 1, 43859),
      (42932, 42946, 2, 42933), (42948, 42948, 1, 42900), (42949, 42949, 1, 642),
      (42950, 42950, 1, 7566), (42951, 42953, 2, 42952), (42960, 42960, 1, 42961),
      (42966, 42968, 2, 42967), (42997, 42997, 1, 42998), (65313, 65338, 1, 65345),
      (66560, 66599, 1, 66600), (66736, 66771, 1, 66776), (66928, 66938, 1, 66967),
      (66940, 66954, 1, 66979), (66956, 66962, 1, 66995), (66964, 66965, 1, 67003),
      (68736, 68786, 1, 68800), (71840, 71871, 1, 71872), (93760, 93791, 1, 93792),
      (125184, 125217, 1, 125218)]"

fun run_lookup :: "(nat \<times> nat \<times> nat \<times> nat) list \<Rightarrow> nat \<Rightarrow> nat" where
  "run_lookup [] c = c"
| "run_lookup ((lo, hi, step, target) # runs) c =
     (if c < lo then c
      else if c \<le> hi \<and> (c - lo) mod step = 0 then target + (c - lo)
      else run_lookup runs c)"

definition lower_cp :: "nat \<Rightarrow> str" where
  "lower_cp c = (if c = 304 then [105, 775] else [run_lookup lower_runs c])"

text \<open>
  Capital sigma (931) becomes final sigma (962) when it ends a word and small sigma (963)
  otherwise.  It ends a word when, skipping case-ignorable code points, a cased code point
  comes before it and no cased code point comes after it.  The two properties are tables
  of ranges \<open>(lo, hi)\<close> in ascending order.
\<close>

definition case_ignorable_ranges :: "(nat \<times> nat) list" where
  "case_ignorable_ranges =
     [(39, 39), (46, 46), (58, 58), (94, 94), (96, 96), (168, 168), (173, 173), (175, 175),
      (180, 180), (183, 184), (688, 879), (884, 885), (890, 890), (900, 901), (903, 903),
      (1155, 1161), (1369, 1369), (1375, 1375), (1425, 1469), (1471, 1471), (1473, 1474),
      (1476, 1477), (1479, 1479), (1524, 1524), (1536, 1541), (1552, 1562), (1564, 1564),
      (1600, 1600), (1611, 1631), (1648, 1648), (1750, 1757), (1759, 1768), (1770, 1773),
      (1807, 1807), (1809, 1809), (1840, 1866), (1958, 1968), (2027, 2037), (2042, 2042),
      (2045, 2045), (2070, 2093), (2137, 2139), (2184, 2184), (2192, 2193), (2200, 2207),
      (2249, 2306), (2362, 2362), (2364, 2364), (2369, 2376), (2381, 2381), (2385, 2391),
      (2402, 2403), (2417, 2417), (2433, 2433), (2492, 2492), (2497, 2500), (2509, 2509),
      (2530, 2531), (2558, 2558), (2561, 2562), (2620, 2620), (2625, 2626), (2631, 2632),
      (2635, 2637), (2641, 2641), (2672, 2673), (2677, 2677), (2689, 2690), (2748, 2748),
      (2753, 2757), (2759, 2760), (2765, 2765), (2786, 2787), (2810, 2815), (2817, 2817),
      (2876, 2876), (2879, 2879), (2881, 2884), (2893, 2893), (2901, 2902), (2914, 2915),
      (2946, 2946), (3008, 3008), (3021, 3021), (3072, 3072), (3076, 3076), (3132, 3132),
      (3134, 3136), (3142, 3144), (3146, 3149), (3157, 3158), (3170, 3171), (3201, 3201),
      (3260, 3260), (3263, 3263), (3270, 3270), (3276, 3277), (3298, 3299), (3328, 3329),
      (3387, 3388), (3393, 3396), (3405, 3405), (3426, 3427), (3457, 3457), (3530, 3530),
      (3538, 3540), (3542, 3542), (3633, 3633), (3636, 3642), (3654, 3662), (3761, 3761),
      (3764, 3772), (3782, 3782), (3784, 3789), (3864, 3865), (3893, 3893), (3895, 3895),
      (3897, 3897), (3953, 3966), (3968, 3972), (3974, 3975), (3981, 3991), (3993, 4028),
      (4038, 4038), (4141, 4144), (4146, 4151), (4153, 4154), (4157, 4158), (4184, 4185),
      (4190, 4192), (4209, 4212), (4226, 4226), (4229, 4230), (4237, 4237), (4253, 4253),
      (4348, 4348), (4957, 4959), (5906, 5908), (5938, 5939), (5970, 5971), (6002, 6003),
      (6068, 6069), (6071, 6077), (6086, 6086), (6089, 6099), (6103, 6103), (6109, 6109),
      (6155, 6159), (6211, 6211), (6277, 6278), (6313, 6313), (6432, 6434), (6439, 6440),
      (6450, 6450), (6457, 6459), (6679, 6680), (6683, 6683), (6742, 6742), (6744, 6750),
      (6752, 6752), (6754, 6754), (6757, 6764), (6771, 6780), (6783, 6783), (6823, 6823),
      (6832, 6862), (6912, 6915), (6964, 6964), (6966, 6970), (6972, 6972), (6978, 6978),
      (7019, 7027), (7040, 7041), (7074, 7077), (7080, 7081), (7083, 7085), (7142, 7142),
      (7144, 7145), (7149, 7149), (7151, 7153), (7212, 7219), (7222, 7223), (7288, 7293),
      (7376, 7378), (7380, 7392), (7394, 7400), (7405, 7405), (7412, 7412), (7416, 7417),
      (7468, 7530), (7544, 7544), (7579, 7679), (8125, 8125), (8127, 8129), (8141, 8143),
      (8157, 8159), (8173, 8175), (8189, 8190), (8203, 8207), (8216, 8217), (8228, 8228),
      (8231, 8231), (8234, 8238), (8288, 8292), (8294, 8303), (8305, 8305), (8319, 8319),
      (8336, 8348), (8400, 8432), (11388, 11389), (11503, 11505), (11631, 11631),
      (11647, 11647), (11744, 11775), (11823, 11823), (12293, 12293), (12330, 12333),
      (12337, 12341), (12347, 12347), (12441, 12446), (12540, 12542), (40981, 40981),
      (42232, 42237), (42508, 42508), (42607, 42610), (42612, 42621), (42623, 42623),
      (42652, 42655), (42736, 42737), (42752, 42785), (42864, 42864), (42888, 42890),
      (42994, 42996), (43000, 43001), (43010, 43010), (43014, 43014), (43019, 43019),
      (43045, 43046), (43052, 43052), (43204, 43205), (43232, 43249), (43263, 43263),
      (43302, 43309), (43335, 43345), (43392, 43394), (43443, 43443), (43446, 43449),
      (43452, 43453), (43471, 43471), (43493, 43494), (43561, 43566), (43569, 43570),
      (43573, 43574), (43587, 43587), (43596, 43596), (43632, 43632), (43644, 43644),
      (43696, 43696), (43698, 43700), (43703, 43704), (43710, 43711), (43713, 43713),
      (43741, 43741), (43756, 43757), (43763, 43764), (43766, 43766), (43867, 43871),
      (43881, 43883), (44005, 44005), (44008, 44008), (44013, 44013), (64286, 64286),
      (64434, 64450), (65024, 65039), (65043, 65043), (65056, 65071), (65106, 65106),
      (65109, 65109), (65279, 65279), (65287, 65287), (65294, 65294), (65306, 65306),
      (65342, 65342), (65344, 65344), (65392, 65392), (65438, 65439), (65507, 65507),
      (65529, 65531), (66045, 66045), (66272, 66272), (66422, 66426), (67456, 67461),
      (67463, 67504), (67506, 67514), (68097, 68099), (68101, 68102), (68108, 68111),
      (68152, 68154), (68159, 68159), (68325, 68326), (68900, 68903), (69291, 69292),
      (69446, 69456), (69506, 69509), (69633, 69633), (69688, 69702), (69744, 69744),
      (69747, 69748), (69759, 69761), (69811, 69814), (69817, 69818), (69821, 69821),
      (69826, 69826), (69837, 69837), (69888, 69890), (69927, 69931), (69933, 69940),
      (70003, 70003), (70016, 70017), (70070, 70078), (70089, 70092), (70095, 70095),
      (70191, 70193), (70196, 70196), (70198, 70199), (70206, 70206), (70367, 70367),
      (70371, 70378), (70400, 70401), (70459, 70460), (70464, 70464), (70502, 70508),
      (70512, 70516), (70712, 70719), (70722, 70724), (70726, 70726), (70750, 70750),
      (70835, 70840), (70842, 70842), (70847, 70848), (70850, 70851), (71090, 71093),
      (71100, 71101), (71103, 71104), (71132, 71133), (71219, 71226), (71229, 71229),
      (71231, 71232), (71339, 71339), (71341, 71341), (71344, 71349), (71351, 71351),
      (71453, 71455), (71458, 71461), (71463, 71467), (71727, 71735), (71737, 71738),
      (71995, 71996), (71998, 71998), (72003, 72003), (72148, 72151), (72154, 72155),
      (72160, 72160), (72193, 72202), (72243, 72248), (72251, 72254), (72263, 72263),
      (72273, 72278), (72281, 72283), (72330, 72342), (72344, 72345), (72752, 72758),
      (72760, 72765), (72767, 72767), (72850, 72871), (72874, 72880), (72882, 72883),
      (72885, 72886), (73009, 73014), (73018, 73018), (73020, 73021), (73023, 73029),
      (73031, 73031), (73104, 73105), (73109, 73109), (73111, 73111), (73459, 73460),
      (78896, 78904), (92912, 92916), (92976, 92982), (92992, 92995), (94031, 94031),
      (94095, 94111), (94176, 94177), (94179, 94180), (110576, 110579), (110581, 110587),
      (110589, 110590), (113821, 113822), (113824, 113827), (118528, 118573),
      (118576, 118598), (119143, 119145), (119155, 119170), (119173, 119179),
      (119210, 119213), (119362, 119364), (121344, 121398), (121403, 121452),
      (121461, 121461), (121476, 121476), (121499, 121503), (121505, 121519),
      (122880, 122886), (122888, 122904), (122907, 122913), (122915, 122916),
      (122918, 122922), (123184, 123197), (123566, 123566), (123628, 123631),
      (125136, 125142), (125252, 125259), (127995, 127999), (917505, 917505),
      (917536, 917631), (917760, 917999)]"

definition cased_ranges :: "(nat \<times> nat) list" where
  "cased_ranges =
     [(65, 90), (97, 122), (170, 170), (181, 181), (186, 186), (192, 214), (216, 246),
      (248, 442), (444, 447), (452, 659), (661, 696), (704, 705), (736, 740), (837, 837),
      (880, 883), (886, 887), (890, 893), (895, 895), (902, 902), (904, 906), (908, 908),
      (910, 929), (931, 1013), (1015, 1153), (1162, 1327), (1329, 1366), (1376, 1416),
      (4256, 4293), (4295, 4295), (4301, 4301), (4304, 4346), (4349, 4351), (5024, 5109),
      (5112, 5117), (7296, 7304), (7312, 7354), (7357, 7359), (7424, 7615), (7680, 7957),
      (7960, 7965), (7968, 8005), (8008, 8013), (8016, 8023), (8025, 8025), (8027, 8027),
      (8029, 8029), (8031, 8061), (8064, 8116), (8118, 8124), (8126, 8126), (8130, 8132),
      (8134, 8140), (8144, 8147), (8150, 8155), (8160, 8172), (8178, 8180), (8182, 8188),
      (8305, 8305), (8319, 8319), (8336, 8348), (8450, 8450), (8455, 8455), (8458, 8467),
      (8469, 8469), (8473, 8477), (8484, 8484), (8486, 8486), (8488, 8488), (8490, 8493),
      (8495, 8500), (8505, 8505), (8508, 8511), (8517, 8521), (8526, 8526), (8544, 8575),
      (8579, 8580), (9398, 9449), (11264, 11492), (11499, 11502), (11506, 11507),
      (11520, 11557), (11559, 11559), (11565, 11565), (42560, 42605), (42624, 42653),
      (42786, 42887), (42891, 42894), (42896, 42954), (42960, 42961), (42963, 42963),
      (42965, 42969), (42997, 42998), (43000, 43002), (43824, 43866), (43868, 43880),
      (43888, 43967), (64256, 64262), (64275, 64279), (65313, 65338), (65345, 65370),
      (66560, 66639), (66736, 66771), (66776, 66811), (66928, 66938), (66940, 66954),
      (66956, 66962), (66964, 66965), (66967, 66977), (66979, 66993), (66995, 67001),
      (67003, 67004), (67456, 67456), (67459, 67461), (67463, 67504), (67506, 67514),
      (68736, 68786), (68800, 68850), (71840, 71903), (93760, 93823), (119808, 119892),
      (119894, 119964), (119966, 119967), (119970, 119970), (119973, 119974),
      (119977, 119980), (119982, 119993), (119995, 119995), (119997, 120003),
      (120005, 120069), (120071, 120074), (120077, 120084), (120086, 120092),
      (120094, 120121), (120123, 120126), (120128, 120132), (120134, 120134),
      (120138, 120144), (120146, 120485), (120488, 120512), (120514, 120538),
      (120540, 120570), (120572, 120596), (120598, 120628), (120630, 120654),
      (120656, 120686), (120688, 120712), (120714, 120744), (120746, 120770),
      (120772, 120779), (122624, 122633), (122635, 122654), (125184, 125251),
      (127280, 127305), (127312, 127337), (127344, 127369)]"

fun in_ranges :: "(nat \<times> nat) list \<Rightarrow> nat \<Rightarrow> bool" where
  "in_ranges [] c = False"
| "in_ranges ((lo, hi) # ranges) c =
     (if c < lo then False else if c \<le> hi then True else in_ranges ranges c)"

definition case_ignorable :: "nat \<Rightarrow> bool" where
  "case_ignorable c = in_ranges case_ignorable_ranges c"

definition cased :: "nat \<Rightarrow> bool" where
  "cased c = in_ranges cased_ranges c"

text \<open>
  \<open>before\<close> is the text before the sigma, nearest code point first; \<open>after\<close> is the text
  after it.
\<close>

definition final_sigma :: "str \<Rightarrow> str \<Rightarrow> bool" where
  "final_sigma before after =
     ((case dropWhile case_ignorable before of [] \<Rightarrow> False | c # rest \<Rightarrow> cased c) \<and>
      (case dropWhile case_ignorable after of [] \<Rightarrow> True | c # rest \<Rightarrow> \<not> cased c))"

fun lower_from :: "str \<Rightarrow> str \<Rightarrow> str" where
  "lower_from before [] = []"
| "lower_from before (c # cs) =
     (if c = 931 then [if final_sigma before cs then 962 else 963] else lower_cp c) @
     lower_from (c # before) cs"

definition str_lower :: "str \<Rightarrow> str" where
  "str_lower s = lower_from [] s"

text \<open>Python's \<^verbatim>\<open>sub in s\<close> on strings: \<open>sub\<close> occurs in \<open>s\<close> as a contiguous run.\<close>

fun str_in :: "str \<Rightarrow> str \<Rightarrow> bool" where
  "str_in sub [] = (sub = [])"
| "str_in sub (c # cs) = (prefix sub (c # cs) \<or> str_in sub cs)"

text \<open>\<^verbatim>\<open>str(n)\<close> for an integer: its decimal digits, with a minus sign when negative.\<close>

fun str_nat :: "nat \<Rightarrow> str" where
  "str_nat n = (if n < 10 then [48 + n] else str_nat (n div 10) @ [48 + n mod 10])"

declare str_nat.simps [simp del]

definition str_int :: "int \<Rightarrow> str" where
  "str_int i = (if i < 0 then 45 # str_nat (nat (- i)) else str_nat (nat i))"

text \<open>\<^verbatim>\<open>sep.join(parts)\<close> and \<^verbatim>\<open>s.split(sep)\<close> for a one-character separator.\<close>

fun str_join :: "str \<Rightarrow> str list \<Rightarrow> str" where
  "str_join sep [] = []"
| "str_join sep [p] = p"
| "str_join sep (p # q # ps) = p @ sep @ str_join sep (q # ps)"

fun str_split :: "nat \<Rightarrow> str \<Rightarrow> str list" where
  "str_split sep [] = [[]]"
| "str_split sep (c # cs) =
     (if c = sep then [] # str_split sep cs
      else (case str_split sep cs of
              [] \<Rightarrow> [[c]]
            | p # ps \<Rightarrow> (c # p) # ps))"

subsection \<open>Exceptions and HTTP errors\<close>

text \<open>
  A Python exception is kept as its message (\<^verbatim>\<open>str(e)\<close>), which is all the handlers
  read of it.  \<open>HTTPException\<close> is FastAPI's: a status code and a detail text.
\<close>

datatype py_exception = PyException (message: str)

datatype http_exception = HTTPException (status_code: int) (detail: str)

subsection \<open>The generation fallback chain\<close>

text \<open>The five canned answers of \<^verbatim>\<open>generate_simple_response\<close>, in the order of its branches.\<close>

definition landmark_response :: str where
  "landmark_response =
     ascii ''G'' @ [246] @ ascii ''beklitepe, d'' @ [252] @ ascii ''nyan'' @ [305] @
     ascii ''n en eski tap'' @ [305] @ ascii ''nak kompleksidir. M.'' @ [214] @
     ascii ''. 10.000 y'' @ [305] @ ascii ''llar'' @ [305] @
     ascii ''na dayanan bu yap'' @ [305] @ ascii '', '' @ [350] @ ascii ''anl'' @
     [305] @ ascii ''urfa'' @ [39] @ ascii ''da bulunur. UNESCO D'' @ [252] @
     ascii ''nya Miras'' @ [305] @ ascii '' listesindedir.''"

definition lodging_response :: str where
  "lodging_response =
     ascii ''B'' @ [246] @ ascii ''lgede bir'' @ [231] @ ascii ''ok otel se'' @ [231] @
     ascii ''ene'' @ [287] @ ascii ''i bulunmaktad'' @ [305] @ ascii ''r. '' @ [350] @
     ascii ''anl'' @ [305] @ ascii ''urfa'' @ [39] @
     ascii ''da Hilton, Dedeman gibi b'' @ [252] @ ascii ''y'' @ [252] @
     ascii ''k oteller var. Mardin'' @ [39] @ ascii ''de butik ta'' @ [351] @
     ascii '' evler pop'' @ [252] @ ascii ''lerdir.''"

definition food_response :: str where
  "food_response =
     ascii ''GAP b'' @ [246] @ ascii ''lgesi zengin mutfa'' @ [287, 305] @ ascii ''yla '' @
     [252] @ ascii ''nl'' @ [252] @ ascii ''d'' @ [252] @ ascii ''r. Urfa kebab'' @
     [305] @ ascii '', '' @ [231] @ ascii ''i'' @ [287] @ ascii '' k'' @ [246] @
     ascii ''fte, Mardin'' @ [39] @ ascii ''in kibe'' @ [39] @
     ascii ''si, Gaziantep baklavas'' @ [305] @
     ascii '' mutlaka denenmeli lezzetlerdir.''"

definition transport_response :: str where
  "transport_response =
     ascii ''B'' @ [246] @ ascii ''lgeye havayolu ile '' @ [350] @ ascii ''anl'' @ [305] @
     ascii ''urfa, Gaziantep veya Diyarbak'' @ [305] @ ascii ''r havalimanlar'' @
     [305] @ ascii ''ndan ula'' @ [351] @ ascii ''abilirsiniz. '' @ [350] @
     ascii ''ehirler aras'' @ [305] @ ascii '' otob'' @ [252] @
     ascii ''s seferleri de mevcuttur.''"

definition default_response :: str where
  "default_response =
     ascii ''GAP b'' @ [246] @ ascii ''lgesi, tarihi ve k'' @ [252] @ ascii ''lt'' @ [252] @
     ascii ''rel zenginlikleriyle sizi bekliyor. Size nas'' @ [305] @ ascii ''l yard'' @
     [305] @ ascii ''mc'' @ [305] @ ascii '' olabilirim?''"

text \<open>The trigger words, as the source writes them (all in lower case).\<close>

definition kw_gobeklitepe :: str where
  "kw_gobeklitepe = ascii ''g'' @ [246] @ ascii ''beklitepe''"

definition kw_otel :: str where
  "kw_otel = ascii ''otel''"

definition kw_konaklama :: str where
  "kw_konaklama = ascii ''konaklama''"

definition kw_yemek :: str where
  "kw_yemek = ascii ''yemek''"

definition kw_ne_yenir :: str where
  "kw_ne_yenir = ascii ''ne yenir''"

definition kw_ulasim :: str where
  "kw_ulasim = ascii ''ula'' @ [351, 305] @ ascii ''m''"

text \<open>
  \<^verbatim>\<open>generate_simple_response(prompt)\<close>: the text is lower-cased once and the
  \<^verbatim>\<open>if\<close>/\<^verbatim>\<open>elif\<close> chain returns the answer of the first branch whose trigger occurs in it.
\<close>

definition generate_simple_response :: "str \<Rightarrow> str" where
  "generate_simple_response prompt =
     (let prompt_lower = str_lower prompt in
      if str_in kw_gobeklitepe prompt_lower then landmark_response
      else if str_in kw_otel prompt_lower \<or> str_in kw_konaklama prompt_lower
        then lodging_response
      else if str_in kw_yemek prompt_lower \<or> str_in kw_ne_yenir prompt_lower
        then food_response
      else if str_in kw_ulasim prompt_lower then transport_response
      else default_response)"

text \<open>
  What \<^verbatim>\<open>requests.post\<close> can come back with: it raises (no connection, a timeout of the
  transport), or it returns a response with a status code and a body.  Of the body the
  code reads \<^verbatim>\<open>response.json()['response']\<close>: the body is \<open>None\<close> when it is not a
  JSON object (\<^verbatim>\<open>json()\<close> or the subscript raises) and otherwise the object's text
  fields by key.  The call is made without a timeout; a call that never comes back is not
  among the outcomes.
\<close>

datatype http_result =
    RequestRaised py_exception
  | HttpResponse int "(str \<times> str) list option"

text \<open>
  \<^verbatim>\<open>query_llm(prompt)\<close>.  \<open>post\<close> is the language-model service: the outcome of posting
  the prompt to \<^verbatim>\<open>/api/generate\<close>.  Everything inside the \<^verbatim>\<open>try\<close> that raises, the
  missing \<^verbatim>\<open>'response'\<close> key included, lands in the bare \<^verbatim>\<open>except\<close>.
\<close>

definition query_llm :: "(str \<Rightarrow> http_result) \<Rightarrow> str \<Rightarrow> str" where
  "query_llm post prompt =
     (case post prompt of
        RequestRaised e \<Rightarrow> generate_simple_response prompt
      | HttpResponse code body \<Rightarrow>
          if code = 200 then
            (case body of
               None \<Rightarrow> generate_simple_response prompt
             | Some fields \<Rightarrow>
                 (case map_of fields (ascii ''response'') of
                    None \<Rightarrow> generate_simple_response prompt
                  | Some text \<Rightarrow> text))
          else generate_simple_response prompt)"

subsection \<open>The SQLite database\<close>

text \<open>
  Every table of \<^verbatim>\<open>init_db\<close> that a handler below writes has an
  \<^verbatim>\<open>INTEGER PRIMARY KEY AUTOINCREMENT\<close> id: a table is its rows, in insertion order, and the
  last id it handed out.  \<open>insert_row\<close> is an \<^verbatim>\<open>INSERT\<close>: the new row gets the next id,
  which is also \<^verbatim>\<open>cursor.lastrowid\<close>.  The columns that SQLite fills from its clock
  (\<^verbatim>\<open>DEFAULT CURRENT_TIMESTAMP\<close>) are not part of the rows.
\<close>

record 'r table =
  rows :: "'r list"
  last_id :: int

definition insert_row :: "(int \<Rightarrow> 'r) \<Rightarrow> 'r table \<Rightarrow> int \<times> 'r table" where
  "insert_row mk t =
     (let lastrowid = last_id t + 1
      in (lastrowid, \<lparr>rows = rows t @ [mk lastrowid], last_id = lastrowid\<rparr>))"

definition delete_rows :: "('r \<Rightarrow> bool) \<Rightarrow> 'r table \<Rightarrow> 'r table" where
  "delete_rows doomed t = t\<lparr>rows := filter (\<lambda>r. \<not> doomed r) (rows t)\<rparr>"

record conversation =
  conv_id :: int
  conv_user_id :: str
  conv_message :: str
  conv_response :: str

record document =
  doc_id :: int
  doc_title :: str
  doc_content :: str
  doc_type :: str
  doc_source :: "str option"

record document_chunk =
  dc_id :: int
  dc_document_id :: int
  dc_chunk_text :: str
  dc_chunk_index :: int
  dc_vector_id :: str

text \<open>
  The preferences dictionary of an itinerary request.  The \<^verbatim>\<open>route_data\<close> column holds
  \<^verbatim>\<open>json.dumps(preferences)\<close> and the \<^verbatim>\<open>waypoints\<close> column \<^verbatim>\<open>json.dumps\<close> of the waypoint
  list; the rows keep the value that is serialised.
\<close>

record preferences =
  pf_interests :: "str list"
  pf_duration :: str
  pf_locations :: "str list"

record itinerary =
  it_id :: int
  it_name :: str
  it_description :: str
  it_route_data :: preferences

record route =
  rt_id :: int
  rt_name :: str
  rt_waypoints :: "str list"
  rt_distance :: real
  rt_duration :: str

record database =
  conversations :: "conversation table"
  documents :: "document table"
  document_chunks :: "document_chunk table"
  itineraries :: "itinerary table"
  routes :: "route table"

text \<open>
  A row of \<^verbatim>\<open>destinations\<close> as \<^verbatim>\<open>SELECT *\<close> returns it; every column but the id and the
  name may be \<^verbatim>\<open>NULL\<close>.
\<close>

record destination =
  dest_id :: int
  dest_name :: str
  dest_description :: "str option"
  dest_category :: "str option"
  dest_location :: "str option"
  dest_rating :: "real option"
  dest_image_url :: "str option"
  dest_tags :: "str option"

subsection \<open>The collaborators main.py imports\<close>

text \<open>
  \<^verbatim>\<open>DocumentProcessor\<close>, \<^verbatim>\<open>VectorStore\<close> and \<^verbatim>\<open>RAGService\<close> live in modules of their own.
  Each is a record of its methods, and a method call yields an exception or a value, so
  the handlers are verified against every behaviour of the collaborators.  A global that
  is \<^verbatim>\<open>None\<close> (the service was not initialised) is \<open>None\<close> here.
\<close>

record text_chunk =
  tc_text :: str
  tc_chunk_index :: int

record embedded_chunk =
  ck_text :: str
  ck_chunk_index :: int
  ck_embedding :: "real list"
  ck_vector_id :: "str option"

record search_result =
  sr_document_id :: int
  sr_chunk_text :: str
  sr_score :: real

record document_processor =
  dp_process_document :: "str \<Rightarrow> str \<Rightarrow> str \<Rightarrow> str option \<Rightarrow> py_exception + text_chunk list"
  dp_embed_chunks :: "text_chunk list \<Rightarrow> py_exception + embedded_chunk list"
  dp_embed_text :: "str \<Rightarrow> py_exception + real list"

record vector_store =
  vs_add_documents :: "embedded_chunk list \<Rightarrow> int \<Rightarrow> py_exception + unit"
  vs_search :: "real list \<Rightarrow> int \<Rightarrow> str option \<Rightarrow> py_exception + search_result list"
  vs_delete_document :: "int \<Rightarrow> py_exception + unit"

record itinerary_result =
  ires_itinerary :: str
  ires_context_sources :: "str list option"

record route_result =
  rres_route :: str
  rres_start_location :: str
  rres_end_location :: str
  rres_waypoints :: "str list"
  rres_context_sources :: "str list option"

record rag_service =
  rag_query :: "str \<Rightarrow> str \<Rightarrow> int \<Rightarrow> py_exception + (str \<times> str) list"
  rag_generate_itinerary :: "preferences \<Rightarrow> str \<Rightarrow> py_exception + itinerary_result"
  rag_generate_route ::
    "str \<Rightarrow> str \<Rightarrow> str list option \<Rightarrow> str \<Rightarrow> py_exception + route_result"

subsection \<open>The chat handler\<close>

record ChatMessage =
  cm_user_id :: str
  cm_message :: str
  cm_language :: str

record ChatResponse =
  cr_response :: str
  cr_user_id :: str

text \<open>
  The prompt both fallback branches of \<^verbatim>\<open>chat_endpoint\<close> assemble (the two f-strings are
  the same text): the user's message and the language are spliced into a fixed Turkish
  template, which names the region's sights.
\<close>

definition chat_prompt :: "ChatMessage \<Rightarrow> str" where
  "chat_prompt chat =
     ascii ''Sen Mezopotamya b'' @ [246] @ ascii ''lgesi turizm asistan'' @ [305] @
     ascii ''s'' @ [305] @ ascii ''n. Kullan'' @ [305] @ ascii ''c'' @ [305] @
     ascii '' sorusu: '' @ cm_message chat @
     [10] @ ascii ''    '' @ [10] @ ascii ''    B'' @ [246] @ ascii ''lgedeki '' @ [246] @
     ascii ''nemli yerler: G'' @ [246] @ ascii ''beklitepe, Bal'' @ [305] @
     ascii ''kl'' @ [305] @ ascii ''g'' @ [246] @ ascii ''l, Nemrut Da'' @ [287, 305] @
     ascii '', Harran, Mardin, Hasankeyf.'' @ [10] @ ascii ''    '' @ [10] @
     ascii ''    Kullan'' @ [305] @ ascii ''c'' @ [305] @ ascii ''ya yard'' @ [305] @
     ascii ''mc'' @ [305] @ ascii '' ol, k'' @ [305] @ ascii ''sa ve '' @ [246] @
     ascii ''z cevap ver. Dil: '' @ cm_language chat"

text \<open>
  \<^verbatim>\<open>chat_endpoint(chat)\<close>.  With a RAG service its answer is used; when the service is
  missing, raises, or answers without a \<^verbatim>\<open>'response'\<close> key, the prompt goes to
  \<^verbatim>\<open>query_llm\<close>.  The conversation is then inserted and the response returned.
\<close>

definition chat_endpoint ::
  "rag_service option \<Rightarrow> (str \<Rightarrow> http_result) \<Rightarrow> ChatMessage \<Rightarrow> database
     \<Rightarrow> ChatResponse \<times> database" where
  "chat_endpoint rag post chat db =
     (let response =
        (case rag of
           Some service \<Rightarrow>
             (case rag_query service (cm_message chat) (cm_language chat) 5 of
                Inr result \<Rightarrow>
                  (case map_of result (ascii ''response'') of
                     Some text \<Rightarrow> text
                   | None \<Rightarrow> query_llm post (chat_prompt chat))
              | Inl e \<Rightarrow> query_llm post (chat_prompt chat))
         | None \<Rightarrow> query_llm post (chat_prompt chat));
        saved = insert_row
          (\<lambda>i. \<lparr>conv_id = i, conv_user_id = cm_user_id chat,
                conv_message = cm_message chat, conv_response = response\<rparr>)
          (conversations db)
      in (\<lparr>cr_response = response, cr_user_id = cm_user_id chat\<rparr>,
          db\<lparr>conversations := snd saved\<rparr>))"

subsection \<open>Recommendations\<close>

record RecommendationRequest =
  rq_user_id :: str
  rq_interests :: "str list"
  rq_max_results :: int

record recommendation =
  rec_id :: int
  rec_name :: str
  rec_description :: "str option"
  rec_category :: "str option"
  rec_location :: "str option"
  rec_rating :: "real option"
  rec_image_url :: "str option"
  rec_tags :: "str list"
  rec_match_score :: real

record RecommendationResponse =
  rr_recommendations :: "recommendation list"
  rr_user_id :: str

text \<open>The SQL text the handler builds by interpolation.\<close>

definition recommendations_query :: "RecommendationRequest \<Rightarrow> str" where
  "recommendations_query request =
     (let interests_str = str_join (ascii '','') (rq_interests request) in
      [10] @ ascii ''        SELECT * FROM destinations '' @ [10] @
      ascii ''        WHERE tags LIKE '' @ [39] @ ascii ''%'' @ interests_str @
      ascii ''%'' @ [39] @ ascii '' '' @ [10] @ ascii ''        ORDER BY rating DESC '' @
      [10] @ ascii ''        LIMIT '' @ str_int (rq_max_results request) @
      [10] @ ascii ''    '')"

text \<open>The dictionary the loop appends for one fetched row.\<close>

definition recommendation_of :: "destination \<Rightarrow> recommendation" where
  "recommendation_of row =
     \<lparr>rec_id = dest_id row, rec_name = dest_name row,
      rec_description = dest_description row, rec_category = dest_category row,
      rec_location = dest_location row, rec_rating = dest_rating row,
      rec_image_url = dest_image_url row,
      rec_tags = (case dest_tags row of
                    None \<Rightarrow> []
                  | Some tags \<Rightarrow> if tags = [] then [] else str_split 44 tags),
      rec_match_score = 0.85\<rparr>"

text \<open>
  \<^verbatim>\<open>get_recommendations(request)\<close>.  \<open>execute\<close> is SQLite running the query text on the
  database and fetching all rows; it raises on text that is not SQL, and the handler
  catches nothing.
\<close>

definition get_recommendations ::
  "(str \<Rightarrow> py_exception + destination list) \<Rightarrow> RecommendationRequest
     \<Rightarrow> py_exception + RecommendationResponse" where
  "get_recommendations execute request =
     (case execute (recommendations_query request) of
        Inl e \<Rightarrow> Inl e
      | Inr fetched \<Rightarrow>
          Inr \<lparr>rr_recommendations = map recommendation_of fetched,
               rr_user_id = rq_user_id request\<rparr>)"

subsection \<open>Document ingestion\<close>

record DocumentIngestRequest =
  di_title :: str
  di_content :: str
  di_type :: str
  di_source :: "str option"

record DocumentIngestResponse =
  dr_document_id :: int
  dr_title :: str
  dr_chunks_created :: nat
  dr_status :: str

text \<open>The f-string \<^verbatim>\<open>f"{document_id}_{chunk['chunk_index']}"\<close>; 95 is the underscore.\<close>

definition vector_id :: "int \<Rightarrow> int \<Rightarrow> str" where
  "vector_id document_id chunk_index = str_int document_id @ [95] @ str_int chunk_index"

text \<open>
  The loop over \<^verbatim>\<open>chunks_with_embeddings\<close>: each chunk gets its vector id written into
  it, the id is appended to \<^verbatim>\<open>vector_ids\<close>, and a row goes into \<^verbatim>\<open>document_chunks\<close>.  The
  result is the updated chunks, the ids and the table.
\<close>

fun save_chunks ::
  "int \<Rightarrow> embedded_chunk list \<Rightarrow> document_chunk table
     \<Rightarrow> embedded_chunk list \<times> str list \<times> document_chunk table" where
  "save_chunks document_id [] t = ([], [], t)"
| "save_chunks document_id (chunk # rest) t =
     (let vid = vector_id document_id (ck_chunk_index chunk);
          t' = snd (insert_row
                 (\<lambda>i. \<lparr>dc_id = i, dc_document_id = document_id, dc_chunk_text = ck_text chunk,
                       dc_chunk_index = ck_chunk_index chunk, dc_vector_id = vid\<rparr>) t)
      in (case save_chunks document_id rest t' of
            (chunks, vector_ids, t'') \<Rightarrow>
              (chunk\<lparr>ck_vector_id := Some vid\<rparr> # chunks, vid # vector_ids, t'')))"

definition ingest_error :: "py_exception \<Rightarrow> http_exception" where
  "ingest_error e = HTTPException 500 (ascii ''Error ingesting document: '' @ message e)"

text \<open>
  \<^verbatim>\<open>ingest_document(doc)\<close>.  The 503 gate comes first.  Inside the \<^verbatim>\<open>try\<close> the document
  is processed and embedded, the document row and the chunk rows are inserted and
  committed, and only then are the chunks added to the vector store; any exception
  becomes a 500.  The database returned with an error is the committed one.
\<close>

definition ingest_document ::
  "document_processor option \<Rightarrow> vector_store option \<Rightarrow> DocumentIngestRequest \<Rightarrow> database
     \<Rightarrow> (http_exception + DocumentIngestResponse) \<times> database" where
  "ingest_document processor store doc db =
     (case (processor, store) of
        (Some dp, Some vs) \<Rightarrow>
          (case dp_process_document dp (di_content doc) (di_title doc) (di_type doc)
                  (di_source doc) of
             Inl e \<Rightarrow> (Inl (ingest_error e), db)
           | Inr chunks \<Rightarrow>
               (case dp_embed_chunks dp chunks of
                  Inl e \<Rightarrow> (Inl (ingest_error e), db)
                | Inr chunks_with_embeddings \<Rightarrow>
                    (case insert_row
                            (\<lambda>i. \<lparr>doc_id = i, doc_title = di_title doc,
                                  doc_content = di_content doc, doc_type = di_type doc,
                                  doc_source = di_source doc\<rparr>)
                            (documents db) of
                       (document_id, docs) \<Rightarrow>
                         (case save_chunks document_id chunks_with_embeddings
                                 (document_chunks db) of
                            (chunks', vector_ids, chunk_rows) \<Rightarrow>
                              (let committed =
                                     db\<lparr>documents := docs, document_chunks := chunk_rows\<rparr>
                               in (case vs_add_documents vs chunks' document_id of
                                     Inl e \<Rightarrow> (Inl (ingest_error e), committed)
                                   | Inr u \<Rightarrow>
                                       (Inr \<lparr>dr_document_id = document_id,
                                             dr_title = di_title doc,
                                             dr_chunks_created = length chunks',
                                             dr_status = ascii ''success''\<rparr>,
                                        committed)))))))
      | _ \<Rightarrow>
          (Inl (HTTPException 503 (ascii ''Document processing service unavailable'')), db))"

subsection \<open>Document search\<close>

record DocumentSearchRequest =
  ds_query :: str
  ds_top_k :: int
  ds_filter_type :: "str option"

record DocumentSearchResponse =
  sp_query :: str
  sp_results :: "search_result list"
  sp_count :: nat

text \<open>
  Request validation of \<^verbatim>\<open>DocumentSearchRequest\<close>: \<^verbatim>\<open>top_k\<close> is
  \<^verbatim>\<open>Field(default=5, ge=1, le=50)\<close>, so a missing value is 5 and a value outside 1..50 is
  refused before the handler runs.
\<close>

definition validate_search_request ::
  "str \<Rightarrow> int option \<Rightarrow> str option \<Rightarrow> DocumentSearchRequest option" where
  "validate_search_request query top_k filter_type =
     (let k = (case top_k of None \<Rightarrow> 5 | Some k \<Rightarrow> k) in
      if 1 \<le> k \<and> k \<le> 50
      then Some \<lparr>ds_query = query, ds_top_k = k, ds_filter_type = filter_type\<rparr>
      else None)"

text \<open>
  \<^verbatim>\<open>search_documents(search)\<close>.  The filter dictionary \<^verbatim>\<open>{'type': filter_type}\<close> is built
  only for a filter type that is truthy (neither \<^verbatim>\<open>None\<close> nor empty); it is kept as the
  type it asks for.
\<close>

definition search_documents ::
  "document_processor option \<Rightarrow> vector_store option \<Rightarrow> DocumentSearchRequest
     \<Rightarrow> http_exception + DocumentSearchResponse" where
  "search_documents processor store search =
     (case (processor, store) of
        (Some dp, Some vs) \<Rightarrow>
          (case dp_embed_text dp (ds_query search) of
             Inl e \<Rightarrow>
               Inl (HTTPException 500 (ascii ''Error searching documents: '' @ message e))
           | Inr query_embedding \<Rightarrow>
               (let filter_dict =
                      (case ds_filter_type search of
                         None \<Rightarrow> None
                       | Some t \<Rightarrow> if t = [] then None else Some t)
                in (case vs_search vs query_embedding (ds_top_k search) filter_dict of
                      Inl e \<Rightarrow>
                        Inl (HTTPException 500
                               (ascii ''Error searching documents: '' @ message e))
                    | Inr results \<Rightarrow>
                        Inr \<lparr>sp_query = ds_query search, sp_results = results,
                             sp_count = length results\<rparr>)))
      | _ \<Rightarrow> Inl (HTTPException 503 (ascii ''Search service unavailable'')))"

text \<open>
  Modelled from the spec: the record a vector index holds for one chunk, whose module
  (\<^verbatim>\<open>vector_store.py\<close>) is not among the sources.  The spec's VectorRecord is a vector
  id, an embedding and a payload of document id, chunk index, type, source and text.
\<close>

record vector_record =
  vr_vector_id :: str
  vr_embedding :: "real list"
  vr_document_id :: int
  vr_chunk_index :: int
  vr_type :: str
  vr_source :: "str option"
  vr_text :: str

text \<open>
  Modelled from the spec: the vector store's \<^verbatim>\<open>search\<close> method, whose module
  (\<^verbatim>\<open>vector_store.py\<close>) is not among the sources.  The spec's VectorIndex has
  \<^verbatim>\<open>search(query_vector, limit, filter)\<close> return up to \<open>limit\<close> results ordered by
  descending similarity score, the filter optionally restricting by the payload's type,
  and ties broken by insertion order.  The index is the list of its records in insertion
  order; the similarity measure is a parameter.
\<close>

definition spec_search ::
  "(real list \<Rightarrow> real list \<Rightarrow> real) \<Rightarrow> vector_record list
     \<Rightarrow> real list \<Rightarrow> int \<Rightarrow> str option \<Rightarrow> py_exception + search_result list" where
  "spec_search similarity index query_vector limit filter_dict =
     Inr (take (nat limit)
            (sort_key (\<lambda>r. - sr_score r)
               (map (\<lambda>v. \<lparr>sr_document_id = vr_document_id v, sr_chunk_text = vr_text v,
                          sr_score = similarity query_vector (vr_embedding v)\<rparr>)
                  (filter (\<lambda>v. case filter_dict of None \<Rightarrow> True | Some t \<Rightarrow> vr_type v = t)
                     index))))"

subsection \<open>Document deletion\<close>

record DeleteResponse =
  del_document_id :: int
  del_status :: str

text \<open>
  \<^verbatim>\<open>delete_document(doc_id)\<close>: the vector store deletes first; the two \<^verbatim>\<open>DELETE\<close>
  statements run and commit only when it returned.
\<close>

definition delete_document ::
  "vector_store option \<Rightarrow> int \<Rightarrow> database \<Rightarrow> (http_exception + DeleteResponse) \<times> database" where
  "delete_document store document_id db =
     (case store of
        None \<Rightarrow> (Inl (HTTPException 503 (ascii ''Vector store unavailable'')), db)
      | Some vs \<Rightarrow>
          (case vs_delete_document vs document_id of
             Inl e \<Rightarrow>
               (Inl (HTTPException 500 (ascii ''Error deleting document: '' @ message e)), db)
           | Inr u \<Rightarrow>
               (Inr \<lparr>del_document_id = document_id, del_status = ascii ''deleted''\<rparr>,
                db\<lparr>document_chunks :=
                      delete_rows (\<lambda>r. dc_document_id r = document_id) (document_chunks db),
                    documents := delete_rows (\<lambda>r. doc_id r = document_id) (documents db)\<rparr>)))"

subsection \<open>Itinerary and route generation\<close>

record ItineraryRequest =
  iq_interests :: "str list"
  iq_duration :: str
  iq_locations :: "str list option"
  iq_language :: str

record ItineraryResponse =
  ip_itinerary_id :: int
  ip_itinerary :: str
  ip_preferences :: preferences
  ip_sources :: "str list"

record RouteRequest =
  oq_start_location :: str
  oq_end_location :: str
  oq_waypoints :: "str list option"
  oq_language :: str

record RouteResponse =
  op_route_id :: int
  op_route :: str
  op_start_location :: str
  op_end_location :: str
  op_waypoints :: "str list"
  op_sources :: "str list"

text \<open>\<^verbatim>\<open>x or []\<close> for an optional list, and \<^verbatim>\<open>result.get(key, [])\<close>.\<close>

definition or_empty :: "'a list option \<Rightarrow> 'a list" where
  "or_empty x = (case x of None \<Rightarrow> [] | Some xs \<Rightarrow> xs)"

text \<open>
  \<^verbatim>\<open>generate_itinerary(request)\<close>: without a RAG service the handler raises 503 at once;
  otherwise the service generates, the itinerary is saved and returned, and any exception
  becomes a 500.
\<close>

definition generate_itinerary ::
  "rag_service option \<Rightarrow> ItineraryRequest \<Rightarrow> database
     \<Rightarrow> (http_exception + ItineraryResponse) \<times> database" where
  "generate_itinerary rag request db =
     (case rag of
        None \<Rightarrow> (Inl (HTTPException 503 (ascii ''RAG service unavailable'')), db)
      | Some service \<Rightarrow>
          (let prefs = \<lparr>pf_interests = iq_interests request,
                        pf_duration = iq_duration request,
                        pf_locations = or_empty (iq_locations request)\<rparr>
           in (case rag_generate_itinerary service prefs (iq_language request) of
                 Inl e \<Rightarrow>
                   (Inl (HTTPException 500
                           (ascii ''Error generating itinerary: '' @ message e)), db)
               | Inr result \<Rightarrow>
                   (case insert_row
                           (\<lambda>i. \<lparr>it_id = i,
                                 it_name = ascii ''Plan - '' @ iq_duration request,
                                 it_description = ires_itinerary result,
                                 it_route_data = prefs\<rparr>)
                           (itineraries db) of
                      (itinerary_id, saved) \<Rightarrow>
                        (Inr \<lparr>ip_itinerary_id = itinerary_id,
                              ip_itinerary = ires_itinerary result,
                              ip_preferences = prefs,
                              ip_sources = or_empty (ires_context_sources result)\<rparr>,
                         db\<lparr>itineraries := saved\<rparr>)))))"

text \<open>\<^verbatim>\<open>generate_route(request)\<close>, built the same way.\<close>

definition generate_route ::
  "rag_service option \<Rightarrow> RouteRequest \<Rightarrow> database
     \<Rightarrow> (http_exception + RouteResponse) \<times> database" where
  "generate_route rag request db =
     (case rag of
        None \<Rightarrow> (Inl (HTTPException 503 (ascii ''RAG service unavailable'')), db)
      | Some service \<Rightarrow>
          (case rag_generate_route service (oq_start_location request)
                  (oq_end_location request) (oq_waypoints request) (oq_language request) of
             Inl e \<Rightarrow>
               (Inl (HTTPException 500 (ascii ''Error generating route: '' @ message e)), db)
           | Inr result \<Rightarrow>
               (case insert_row
                       (\<lambda>i. \<lparr>rt_id = i,
                             rt_name = oq_start_location request @ ascii '' - '' @
                                       oq_end_location request,
                             rt_waypoints = or_empty (oq_waypoints request),
                             rt_distance = 0, rt_duration = ascii ''N/A''\<rparr>)
                       (routes db) of
                  (route_id, saved) \<Rightarrow>
                    (Inr \<lparr>op_route_id = route_id, op_route = rres_route result,
                          op_start_location = rres_start_location result,
                          op_end_location = rres_end_location result,
                          op_waypoints = rres_waypoints result,
                          op_sources = or_empty (rres_context_sources result)\<rparr>,
                     db\<lparr>routes := saved\<rparr>))))"

subsection \<open>The rule-based fallback as the spec words it\<close>

text \<open>
  The spec describes the fallback as a keyword dispatch: a small set of topics, each with
  its trigger words, tried in a fixed order on the input without regard to case (the
  triggers are looked for in the lower-cased input); the first topic with a trigger in the
  input selects the canned answer, and no match selects the generic default.  This is that
  description as a table, to be compared with the \<^verbatim>\<open>if\<close>/\<^verbatim>\<open>elif\<close> chain of the source.
\<close>

datatype topic = Landmark | Lodging | Food | Transport

fun triggers :: "topic \<Rightarrow> str list" where
  "triggers Landmark = [kw_gobeklitepe]"
| "triggers Lodging = [kw_otel, kw_konaklama]"
| "triggers Food = [kw_yemek, kw_ne_yenir]"
| "triggers Transport = [kw_ulasim]"

fun canned_response :: "topic option \<Rightarrow> str" where
  "canned_response (Some Landmark) = landmark_response"
| "canned_response (Some Lodging) = lodging_response"
| "canned_response (Some Food) = food_response"
| "canned_response (Some Transport) = transport_response"
| "canned_response None = default_response"

definition spec_matched_topic :: "str \<Rightarrow> topic option" where
  "spec_matched_topic input =
     find (\<lambda>t. list_ex (\<lambda>trigger. str_in trigger (str_lower input)) (triggers t))
       [Landmark, Lodging, Food, Transport]"

definition spec_keyword_dispatch :: "str \<Rightarrow> str" where
  "spec_keyword_dispatch input = canned_response (spec_matched_topic input)"

subsection \<open>Example inputs\<close>

text \<open>
  Concrete services, requests and databases on which the handlers are run below: a language
  model that refuses the connection, one that answers 200 with an empty text, and an empty
  database.
\<close>

definition unreachable_llm :: "str \<Rightarrow> http_result" where
  "unreachable_llm prompt = RequestRaised (PyException (ascii ''Connection refused''))"

definition empty_answer_llm :: "str \<Rightarrow> http_result" where
  "empty_answer_llm prompt = HttpResponse 200 (Some [(ascii ''response'', [])])"

definition failing_llm :: "str \<Rightarrow> http_result" where
  "failing_llm prompt = HttpResponse 503 None"

definition keyless_llm :: "str \<Rightarrow> http_result" where
  "keyless_llm prompt = HttpResponse 200 (Some [(ascii ''error'', ascii ''model not found'')])"

definition answering_llm :: "str \<Rightarrow> http_result" where
  "answering_llm prompt = HttpResponse 200 (Some [(ascii ''response'', ascii ''Merhaba!'')])"

text \<open>The transport trigger in capitals, as \<^verbatim>\<open>str.upper()\<close> writes it.\<close>

definition upper_case_transport :: str where
  "upper_case_transport = ascii ''ULA'' @ [350] @ ascii ''IM''"

definition empty_db :: database where
  "empty_db =
     \<lparr>conversations = \<lparr>rows = [], last_id = 0\<rparr>, documents = \<lparr>rows = [], last_id = 0\<rparr>,
      document_chunks = \<lparr>rows = [], last_id = 0\<rparr>, itineraries = \<lparr>rows = [], last_id = 0\<rparr>,
      routes = \<lparr>rows = [], last_id = 0\<rparr>\<rparr>"

definition hotel_question :: ChatMessage where
  "hotel_question =
     \<lparr>cm_user_id = ascii ''user123'', cm_message = ascii ''otel'', cm_language = ascii ''tr''\<rparr>"

text \<open>
  A document processor that makes one chunk of a text and embeds it, one whose every call
  raises, a vector store whose every call raises, and one that works: its search is the
  search of the spec over a small index, with the dot product as similarity.
\<close>

definition example_processor :: document_processor where
  "example_processor =
     \<lparr>dp_process_document =
        (\<lambda>text title doc_type source. Inr [\<lparr>tc_text = text, tc_chunk_index = 0\<rparr>]),
      dp_embed_chunks =
        (\<lambda>chunks. Inr (map (\<lambda>c. \<lparr>ck_text = tc_text c, ck_chunk_index = tc_chunk_index c,
                                    ck_embedding = [1, 0], ck_vector_id = None\<rparr>) chunks)),
      dp_embed_text = (\<lambda>text. Inr [1, 0])\<rparr>"

definition broken_processor :: document_processor where
  "broken_processor =
     \<lparr>dp_process_document =
        (\<lambda>text title doc_type source. Inl (PyException (ascii ''bad text''))),
      dp_embed_chunks = (\<lambda>chunks. Inl (PyException (ascii ''no model''))),
      dp_embed_text = (\<lambda>text. Inl (PyException (ascii ''no model'')))\<rparr>"

definition unembedding_processor :: document_processor where
  "unembedding_processor =
     example_processor\<lparr>dp_embed_chunks := (\<lambda>chunks. Inl (PyException (ascii ''no model'')))\<rparr>"

definition failing_store :: vector_store where
  "failing_store =
     \<lparr>vs_add_documents = (\<lambda>chunks document_id. Inl (PyException (ascii ''qdrant down''))),
      vs_search = (\<lambda>query_vector limit filter_dict. Inl (PyException (ascii ''qdrant down''))),
      vs_delete_document = (\<lambda>document_id. Inl (PyException (ascii ''qdrant down'')))\<rparr>"

definition dot_product :: "real list \<Rightarrow> real list \<Rightarrow> real" where
  "dot_product u v = sum_list (map2 (*) u v)"

definition example_index :: "vector_record list" where
  "example_index =
     [\<lparr>vr_vector_id = ascii ''1_0'', vr_embedding = [0, 1], vr_document_id = 1,
       vr_chunk_index = 0, vr_type = ascii ''general'', vr_source = None,
       vr_text = ascii ''otel''\<rparr>,
      \<lparr>vr_vector_id = ascii ''2_0'', vr_embedding = [1, 0], vr_document_id = 2,
       vr_chunk_index = 0, vr_type = ascii ''route'', vr_source = None,
       vr_text = ascii ''yol''\<rparr>,
      \<lparr>vr_vector_id = ascii ''2_1'', vr_embedding = [1, 1], vr_document_id = 2,
       vr_chunk_index = 1, vr_type = ascii ''route'', vr_source = None,
       vr_text = ascii ''harran''\<rparr>]"

definition working_store :: vector_store where
  "working_store =
     \<lparr>vs_add_documents = (\<lambda>chunks document_id. Inr ()),
      vs_search = spec_search dot_product example_index,
      vs_delete_document = (\<lambda>document_id. Inr ())\<rparr>"

definition example_doc :: DocumentIngestRequest where
  "example_doc =
     \<lparr>di_title = ascii ''Guide'', di_content = ascii ''otel'', di_type = ascii ''general'',
      di_source = None\<rparr>"

definition one_document_db :: database where
  "one_document_db =
     empty_db
       \<lparr>documents :=
          \<lparr>rows = [\<lparr>doc_id = 1, doc_title = ascii ''Guide'', doc_content = ascii ''otel'',
                    doc_type = ascii ''general'', doc_source = None\<rparr>],
           last_id = 1\<rparr>,
        document_chunks :=
          \<lparr>rows = [\<lparr>dc_id = 1, dc_document_id = 1, dc_chunk_text = ascii ''otel'',
                    dc_chunk_index = 0, dc_vector_id = ascii ''1_0''\<rparr>],
           last_id = 1\<rparr>\<rparr>"

definition example_destinations :: "destination list" where
  "example_destinations =
     [\<lparr>dest_id = 3, dest_name = ascii ''Nemrut'', dest_description = None,
       dest_category = Some (ascii ''Tarihi''), dest_location = None,
       dest_rating = Some 4.9, dest_image_url = None,
       dest_tags = Some (ascii ''tarih,unesco'')\<rparr>,
      \<lparr>dest_id = 8, dest_name = ascii ''Zeugma'', dest_description = None,
       dest_category = None, dest_location = None, dest_rating = Some 4.8,
       dest_image_url = None, dest_tags = None\<rparr>]"

definition example_recommendation_request :: RecommendationRequest where
  "example_recommendation_request =
     \<lparr>rq_user_id = ascii ''user123'', rq_interests = [ascii ''tarih'', ascii ''unesco''],
      rq_max_results = 5\<rparr>"

definition example_search :: DocumentSearchRequest where
  "example_search = \<lparr>ds_query = ascii ''yol'', ds_top_k = 2, ds_filter_type = None\<rparr>"

section \<open>Properties\<close>

subsection \<open>Strings\<close>

lemma str_in_iff: "str_in sub s \<longleftrightarrow> (\<exists>ps ss. s = ps @ sub @ ss)"
proof (induction s)
  case Nil
  then show ?case by auto
next
  case (Cons c cs)
  show ?case
  proof
    assume "str_in sub (c # cs)"
    then consider "prefix sub (c # cs)" | "str_in sub cs" by auto
    then show "\<exists>ps ss. c # cs = ps @ sub @ ss"
    proof cases
      case 1
      then obtain ss where "c # cs = sub @ ss" by (auto simp: prefix_def)
      then have "c # cs = [] @ sub @ ss" by simp
      then show ?thesis by blast
    next
      case 2
      then obtain ps ss where "cs = ps @ sub @ ss" using Cons.IH by blast
      then have "c # cs = (c # ps) @ sub @ ss" by simp
      then show ?thesis by blast
    qed
  next
    assume "\<exists>ps ss. c # cs = ps @ sub @ ss"
    then obtain ps ss where eq: "c # cs = ps @ sub @ ss" by blast
    show "str_in sub (c # cs)"
    proof (cases ps)
      case Nil
      then have "prefix sub (c # cs)" using eq by (simp add: prefix_def)
      then show ?thesis by simp
    next
      case (Cons p ps')
      then have "cs = ps' @ sub @ ss" using eq by simp
      then have "str_in sub cs" using Cons.IH by blast
      then show ?thesis by simp
    qed
  qed
qed

lemma str_in_embedded: "str_in sub s \<Longrightarrow> str_in sub (a @ s @ b)"
proof -
  assume "str_in sub s"
  then obtain ps ss where "s = ps @ sub @ ss" using str_in_iff by blast
  then have "a @ s @ b = (a @ ps) @ sub @ (ss @ b)" by simp
  then show ?thesis using str_in_iff by blast
qed

text \<open>
  Lower-casing works through a text from left to right; a stretch without capital sigma
  is lower-cased letter by letter, whatever surrounds it.
\<close>

lemma lower_from_append: "\<exists>pre. lower_from b (a @ r) = pre @ lower_from (rev a @ b) r"
proof (induction a arbitrary: b)
  case Nil
  then show ?case by simp
next
  case (Cons c a)
  from Cons.IH [of "c # b"] obtain rest where
    "lower_from (c # b) (a @ r) = rest @ lower_from (rev a @ c # b) r"
    by blast
  then show ?case by simp
qed

lemma lower_from_plain:
  "931 \<notin> set w \<Longrightarrow> lower_from b (w @ r) = concat (map lower_cp w) @ lower_from (rev w @ b) r"
  by (induction w arbitrary: b) auto

lemma str_lower_word:
  assumes "931 \<notin> set w" and "str_in w s"
  shows "str_in (concat (map lower_cp w)) (str_lower s)"
proof -
  from assms(2) obtain ps ss where s: "s = ps @ w @ ss" using str_in_iff by blast
  obtain pre where "lower_from [] (ps @ w @ ss) = pre @ lower_from (rev ps @ []) (w @ ss)"
    using lower_from_append by blast
  then have "str_lower s =
      pre @ concat (map lower_cp w) @ lower_from (rev w @ rev ps) ss"
    using assms(1) by (simp add: str_lower_def s lower_from_plain)
  then show ?thesis using str_in_iff by blast
qed

text \<open>
  Lower-casing at work: the Kelvin sign becomes \<^verbatim>\<open>k\<close>, capital I with dot above becomes
  two code points, capital sigma becomes final sigma only at the end of a word, and the
  capital I of the upper-cased transport trigger becomes a dotted \<^verbatim>\<open>i\<close>.
\<close>

lemma str_lower_examples:
  "str_lower [8490] = [107]"
  "str_lower (ascii ''yeme'' @ [8490]) = ascii ''yemek''"
  "str_lower [304] = [105, 775]"
  "str_lower [65, 931] = [97, 962]"
  "str_lower [931, 65] = [963, 97]"
  "str_lower [65, 39, 931, 46] = [97, 39, 962, 46]"
  "str_lower upper_case_transport = ascii ''ula'' @ [351] @ ascii ''im''"
  by (simp_all add: str_lower_def lower_cp_def lower_runs_def final_sigma_def
      case_ignorable_def cased_def case_ignorable_ranges_def cased_ranges_def ascii_def
      upper_case_transport_def)

lemma landmark_response_nonempty: "landmark_response \<noteq> []"
  by (simp add: landmark_response_def ascii_def)
lemma lodging_response_nonempty: "lodging_response \<noteq> []"
  by (simp add: lodging_response_def ascii_def)
lemma food_response_nonempty: "food_response \<noteq> []"
  by (simp add: food_response_def ascii_def)
lemma transport_response_nonempty: "transport_response \<noteq> []"
  by (simp add: transport_response_def ascii_def)
lemma default_response_nonempty: "default_response \<noteq> []"
  by (simp add: default_response_def ascii_def)

lemma generate_simple_response_cases:
  "generate_simple_response prompt \<in>
     {landmark_response, lodging_response, food_response, transport_response, default_response}"
  by (simp add: generate_simple_response_def Let_def)

lemma generate_simple_response_nonempty: "generate_simple_response prompt \<noteq> []"
  using generate_simple_response_cases [of prompt]
    landmark_response_nonempty lodging_response_nonempty food_response_nonempty
    transport_response_nonempty default_response_nonempty
  by auto

lemma chat_prompt_lower_has_landmark:
  "str_in kw_gobeklitepe (str_lower (chat_prompt chat))"
proof -
  define head where "head = ascii ''Sen Mezopotamya b'' @ [246] @ ascii ''lgesi turizm asistan'' @ [305] @
     ascii ''s'' @ [305] @ ascii ''n. Kullan'' @ [305] @ ascii ''c'' @ [305] @
     ascii '' sorusu: '' @ cm_message chat @
     [10] @ ascii ''    '' @ [10] @ ascii ''    B'' @ [246] @ ascii ''lgedeki '' @ [246] @
     ascii ''nemli yerler: ''"
  define name where "name = ascii ''G'' @ [246] @ ascii ''beklitepe''"
  define rest where "rest = ascii '', Bal'' @ [305] @
     ascii ''kl'' @ [305] @ ascii ''g'' @ [246] @ ascii ''l, Nemrut Da'' @ [287, 305] @
     ascii '', Harran, Mardin, Hasankeyf.'' @ [10] @ ascii ''    '' @ [10] @
     ascii ''    Kullan'' @ [305] @ ascii ''c'' @ [305] @ ascii ''ya yard'' @ [305] @
     ascii ''mc'' @ [305] @ ascii '' ol, k'' @ [305] @ ascii ''sa ve '' @ [246] @
     ascii ''z cevap ver. Dil: '' @ cm_language chat"
  have split: "chat_prompt chat = head @ name @ rest"
    by (simp add: chat_prompt_def head_def name_def rest_def ascii_def)
  then have "str_in name (chat_prompt chat)"
    using str_in_iff by blast
  moreover have "931 \<notin> set name"
    by (simp add: name_def ascii_def)
  moreover have "concat (map lower_cp name) = kw_gobeklitepe"
    by (simp add: name_def lower_cp_def lower_runs_def kw_gobeklitepe_def ascii_def)
  ultimately show ?thesis
    using str_lower_word [of name "chat_prompt chat"] by simp
qed

lemma chat_fallback_is_landmark:
  "generate_simple_response (chat_prompt chat) = landmark_response"
  using chat_prompt_lower_has_landmark [of chat]
  by (simp add: generate_simple_response_def Let_def)

lemma str_nat_digits: "c \<in> set (str_nat n) \<Longrightarrow> 48 \<le> c \<and> c \<le> 57"
proof (induction n rule: str_nat.induct)
  case (1 n)
  show ?case
  proof (cases "n < 10")
    case True
    then show ?thesis using "1.prems" by (simp add: str_nat.simps [of n])
  next
    case False
    then have "c \<in> set (str_nat (n div 10)) \<or> c = 48 + n mod 10"
      using "1.prems" by (auto simp add: str_nat.simps [of n])
    then show ?thesis
    proof
      assume "c \<in> set (str_nat (n div 10))"
      then show ?thesis using "1.IH" False by blast
    next
      assume "c = 48 + n mod 10"
      moreover have "n mod 10 < 10" by simp
      ultimately show ?thesis by linarith
    qed
  qed
qed

lemma str_nat_nonempty: "str_nat n \<noteq> []"
  by (simp add: str_nat.simps [of n])

text \<open>Reading a decimal numeral back gives the number, so \<open>str_nat\<close> is injective.\<close>

lemma read_str_nat:
  "foldl (\<lambda>a d. 10 * a + (d - 48)) 0 (str_nat n) = n"
proof (induction n rule: str_nat.induct)
  case (1 n)
  show ?case
  proof (cases "n < 10")
    case True
    then show ?thesis by (simp add: str_nat.simps [of n])
  next
    case False
    then have "foldl (\<lambda>a d. 10 * a + (d - 48)) 0 (str_nat (n div 10)) = n div 10"
      using "1.IH" by simp
    then show ?thesis using False by (simp add: str_nat.simps [of n])
  qed
qed

lemma str_nat_inj:
  assumes "str_nat m = str_nat n"
  shows "m = n"
proof -
  have "foldl (\<lambda>a d. 10 * a + (d - 48)) 0 (str_nat m) =
        foldl (\<lambda>a d. 10 * a + (d - 48)) 0 (str_nat n)"
    using assms by simp
  then show ?thesis by (simp only: read_str_nat)
qed

lemma str_int_inj: "str_int i = str_int j \<Longrightarrow> i = j"
proof -
  assume eq: "str_int i = str_int j"
  have hd_nat: "hd (str_nat k) \<noteq> 45" for k
  proof -
    have "hd (str_nat k) \<in> set (str_nat k)" using str_nat_nonempty by simp
    then have "48 \<le> hd (str_nat k)" using str_nat_digits by blast
    then show ?thesis by linarith
  qed
  show ?thesis
  proof (cases "i < 0")
    case True
    show ?thesis
    proof (cases "j < 0")
      case jn: True
      from eq True jn have "str_nat (nat (- i)) = str_nat (nat (- j))" by (simp add: str_int_def)
      then have "nat (- i) = nat (- j)" by (rule str_nat_inj)
      then show ?thesis using True jn by simp
    next
      case False
      from eq True False have "45 # str_nat (nat (- i)) = str_nat (nat j)" by (simp add: str_int_def)
      then have "hd (str_nat (nat j)) = 45" by (metis list.sel(1))
      then show ?thesis using hd_nat by blast
    qed
  next
    case False
    show ?thesis
    proof (cases "j < 0")
      case True
      from eq True False have "str_nat (nat i) = 45 # str_nat (nat (- j))" by (simp add: str_int_def)
      then have "hd (str_nat (nat i)) = 45" by (metis list.sel(1))
      then show ?thesis using hd_nat by blast
    next
      case jp: False
      from eq False jp have "str_nat (nat i) = str_nat (nat j)" by (simp add: str_int_def)
      then have "nat i = nat j" by (rule str_nat_inj)
      then show ?thesis using False jp by simp
    qed
  qed
qed

lemma str_int_no_underscore: "95 \<notin> set (str_int i)"
proof
  assume in_set: "95 \<in> set (str_int i)"
  have no: "95 \<notin> set (str_nat k)" for k
  proof
    assume "95 \<in> set (str_nat k)"
    then have "(95::nat) \<le> 57" using str_nat_digits by blast
    then show False by simp
  qed
  show False
  proof (cases "i < 0")
    case True
    then have "95 \<in> set (str_nat (nat (- i)))" using in_set by (simp add: str_int_def)
    then show False using no by blast
  next
    case False
    then have "95 \<in> set (str_nat (nat i))" using in_set by (simp add: str_int_def)
    then show False using no by blast
  qed
qed

lemma vector_id_inj:
  "vector_id a b = vector_id c d \<Longrightarrow> a = c \<and> b = d"
proof -
  assume "vector_id a b = vector_id c d"
  then have "str_int a @ 95 # str_int b = str_int c @ 95 # str_int d"
    by (simp add: vector_id_def)
  moreover have "(str_int a @ 95 # str_int b = str_int c @ 95 # str_int d) =
      (str_int a = str_int c \<and> str_int b = str_int d)"
    by (rule append_Cons_eq_iff) (rule str_int_no_underscore)+
  ultimately have "str_int a = str_int c \<and> str_int b = str_int d"
    by simp
  then show ?thesis using str_int_inj by blast
qed

lemma str_nat_small: "n < 10 \<Longrightarrow> str_nat n = [48 + n]"
  by (simp add: str_nat.simps [of n])

lemma str_nat_large: "\<not> n < 10 \<Longrightarrow> str_nat n = str_nat (n div 10) @ [48 + n mod 10]"
  by (simp add: str_nat.simps [of n])

subsection \<open>The generation fallback chain\<close>

text \<open>
  Claim C1, as the code has it.  \<^verbatim>\<open>query_llm\<close> returns a string for every outcome of
  the call to the language model, so nothing is raised to its caller.  When the call
  raises, answers with a status other than 200, or answers 200 with a body that has no
  \<^verbatim>\<open>'response'\<close> field, the result is the rule-based fallback's answer, which is one of
  the five canned texts and never empty.  When the call answers 200 with a
  \<^verbatim>\<open>'response'\<close> field, the result is that text verbatim, whatever it is.
\<close>

theorem query_llm_fallback_chain:
  "(\<forall>e. post prompt = RequestRaised e \<longrightarrow>
        query_llm post prompt = generate_simple_response prompt)
   \<and> (\<forall>code body. post prompt = HttpResponse code body \<and> code \<noteq> 200 \<longrightarrow>
        query_llm post prompt = generate_simple_response prompt)
   \<and> (post prompt = HttpResponse 200 None \<longrightarrow>
        query_llm post prompt = generate_simple_response prompt)
   \<and> (\<forall>fields. post prompt = HttpResponse 200 (Some fields)
          \<and> map_of fields (ascii ''response'') = None \<longrightarrow>
        query_llm post prompt = generate_simple_response prompt)
   \<and> (\<forall>fields text. post prompt = HttpResponse 200 (Some fields)
          \<and> map_of fields (ascii ''response'') = Some text \<longrightarrow>
        query_llm post prompt = text)
   \<and> generate_simple_response prompt \<noteq> []
   \<and> generate_simple_response prompt \<in>
       {landmark_response, lodging_response, food_response, transport_response,
        default_response}"
proof -
  have "generate_simple_response prompt \<noteq> []"
    by (rule generate_simple_response_nonempty)
  moreover note generate_simple_response_cases [of prompt]
  ultimately show ?thesis
    by (simp add: query_llm_def)
qed

text \<open>
  The chain on the question \<^verbatim>\<open>otel\<close>, with the language model unreachable, answering
  503, answering 200 without the field, and answering 200 with a text.
\<close>

theorem query_llm_fallback_chain_witness:
  "query_llm unreachable_llm (ascii ''otel'') = lodging_response
   \<and> query_llm failing_llm (ascii ''otel'') = lodging_response
   \<and> query_llm keyless_llm (ascii ''otel'') = lodging_response
   \<and> query_llm answering_llm (ascii ''otel'') = ascii ''Merhaba!''
   \<and> lodging_response \<noteq> []"
proof -
  have gen: "generate_simple_response (ascii ''otel'') = lodging_response"
    by (simp add: generate_simple_response_def Let_def str_lower_def lower_cp_def lower_runs_def ascii_def
        kw_gobeklitepe_def kw_otel_def)
  have raised: "unreachable_llm (ascii ''otel'') =
      RequestRaised (PyException (ascii ''Connection refused''))"
    by (simp add: unreachable_llm_def)
  have status: "failing_llm (ascii ''otel'') = HttpResponse 503 None"
    by (simp add: failing_llm_def)
  have keyless: "keyless_llm (ascii ''otel'') =
      HttpResponse 200 (Some [(ascii ''error'', ascii ''model not found'')])
      \<and> map_of [(ascii ''error'', ascii ''model not found'')] (ascii ''response'') = None"
    by (simp add: keyless_llm_def ascii_def)
  have answer: "answering_llm (ascii ''otel'') =
      HttpResponse 200 (Some [(ascii ''response'', ascii ''Merhaba!'')])
      \<and> map_of [(ascii ''response'', ascii ''Merhaba!'')] (ascii ''response'') =
          Some (ascii ''Merhaba!'')"
    by (simp add: answering_llm_def)
  show ?thesis
    using query_llm_fallback_chain [of unreachable_llm "ascii ''otel''"]
      query_llm_fallback_chain [of failing_llm "ascii ''otel''"]
      query_llm_fallback_chain [of keyless_llm "ascii ''otel''"]
      query_llm_fallback_chain [of answering_llm "ascii ''otel''"]
      raised status keyless answer gen
    by simp
qed

text \<open>
  The chain does not always return a non-empty string: a language model that answers 200
  with an empty \<^verbatim>\<open>'response'\<close> makes it return the empty string.
\<close>

theorem query_llm_empty_counterexample:
  "query_llm empty_answer_llm (ascii ''merhaba'') = []"
  by (simp add: query_llm_def empty_answer_llm_def)

text \<open>
  Claim C4.  The fallback is handed the assembled prompt, not the user's message, and the
  prompt's template names the landmark (\<open>chat_fallback_is_landmark\<close>): with the language
  model unreachable, the question \<^verbatim>\<open>otel\<close> asked through the chat prompt gets the landmark
  answer, while the fallback applied to the message itself selects the lodging answer.
\<close>

theorem chat_fallback_ignores_message:
  "query_llm unreachable_llm (chat_prompt hotel_question) = landmark_response
   \<and> generate_simple_response (cm_message hotel_question) = lodging_response
   \<and> landmark_response \<noteq> lodging_response"
proof -
  have "query_llm unreachable_llm (chat_prompt hotel_question) =
      generate_simple_response (chat_prompt hotel_question)"
    by (simp add: query_llm_def unreachable_llm_def)
  moreover have "generate_simple_response (cm_message hotel_question) = lodging_response"
    by (simp add: hotel_question_def generate_simple_response_def Let_def str_lower_def
        lower_cp_def lower_runs_def ascii_def kw_gobeklitepe_def kw_otel_def)
  moreover have "landmark_response \<noteq> lodging_response"
    by (simp add: landmark_response_def lodging_response_def ascii_def)
  ultimately show ?thesis
    by (simp add: chat_fallback_is_landmark)
qed

text \<open>The canned answers of the four topics all differ from the generic default.\<close>

lemma canned_not_default:
  "landmark_response \<noteq> default_response" "lodging_response \<noteq> default_response"
  "food_response \<noteq> default_response" "transport_response \<noteq> default_response"
  by (simp_all add: landmark_response_def lodging_response_def food_response_def
      transport_response_def default_response_def ascii_def)

lemma matched_topic_not_default:
  "spec_matched_topic input = Some t \<Longrightarrow> spec_keyword_dispatch input \<noteq> default_response"
  by (cases t) (simp_all add: spec_keyword_dispatch_def canned_not_default)

text \<open>
  Claim C5, as the code has it.  For every input the source's \<^verbatim>\<open>if\<close>/\<^verbatim>\<open>elif\<close> chain
  returns what the keyword dispatch of the spec returns on the input as \<^verbatim>\<open>str.lower()\<close>
  lower-cases it: the landmark answer when that contains the landmark trigger, otherwise
  the lodging answer on a lodging trigger, otherwise the food answer on a food trigger,
  otherwise the transport answer on the transport trigger, and the generic default when
  no trigger occurs.  A trigger fires in every spelling that lower-cases to it letter by
  letter: an input that contains such a spelling of the landmark trigger gets the
  landmark answer, and an input that contains such a spelling of any trigger never gets
  the generic default.
\<close>

theorem generate_simple_response_dispatch:
  "generate_simple_response input = spec_keyword_dispatch input
   \<and> (\<forall>w. str_in w input \<and> 931 \<notin> set w \<and> concat (map lower_cp w) = kw_gobeklitepe \<longrightarrow>
         generate_simple_response input = landmark_response)
   \<and> (\<forall>t k w. k \<in> set (triggers t) \<and> str_in w input \<and> 931 \<notin> set w
           \<and> concat (map lower_cp w) = k \<longrightarrow>
         generate_simple_response input \<noteq> default_response)"
proof -
  have eq: "generate_simple_response input = spec_keyword_dispatch input"
    by (simp add: generate_simple_response_def spec_keyword_dispatch_def
        spec_matched_topic_def Let_def)
  have landmark: "generate_simple_response input = landmark_response"
    if "str_in w input" "931 \<notin> set w" "concat (map lower_cp w) = kw_gobeklitepe" for w
  proof -
    have "str_in kw_gobeklitepe (str_lower input)"
      using str_lower_word [OF that(2) that(1)] that(3) by simp
    then show ?thesis by (simp add: generate_simple_response_def Let_def)
  qed
  have some: "generate_simple_response input \<noteq> default_response"
    if "k \<in> set (triggers t)" "str_in w input" "931 \<notin> set w" "concat (map lower_cp w) = k"
    for t k w
  proof -
    have hit: "str_in k (str_lower input)"
      using str_lower_word [OF that(3) that(2)] that(4) by simp
    have "list_ex (\<lambda>trigger. str_in trigger (str_lower input)) (triggers t)"
      using hit that(1) by (auto simp: list_ex_iff)
    moreover have "t \<in> set [Landmark, Lodging, Food, Transport]"
      by (cases t) simp_all
    ultimately have "spec_matched_topic input \<noteq> None"
      unfolding spec_matched_topic_def find_None_iff by blast
    then obtain t' where "spec_matched_topic input = Some t'" by blast
    then show ?thesis using matched_topic_not_default eq by simp
  qed
  show ?thesis using eq landmark some by blast
qed

text \<open>The lodging trigger and the landmark trigger written in capitals.\<close>

theorem generate_simple_response_dispatch_witness:
  "generate_simple_response (ascii ''Bir OTEL var mi'') = lodging_response
   \<and> spec_keyword_dispatch (ascii ''Bir OTEL var mi'') = lodging_response
   \<and> lodging_response \<noteq> default_response
   \<and> generate_simple_response ([71, 214] @ ascii ''BEKLITEPE'') = landmark_response"
proof -
  have gen: "generate_simple_response (ascii ''Bir OTEL var mi'') = lodging_response"
    by (simp add: generate_simple_response_def Let_def str_lower_def lower_cp_def lower_runs_def
        ascii_def kw_gobeklitepe_def kw_otel_def)
  have trig: "kw_otel \<in> set (triggers Lodging)" by simp
  have occ: "str_in (ascii ''OTEL'') (ascii ''Bir OTEL var mi'')"
    by (simp add: ascii_def)
  have plain: "931 \<notin> set (ascii ''OTEL'')" by (simp add: ascii_def)
  have low: "concat (map lower_cp (ascii ''OTEL'')) = kw_otel"
    by (simp add: lower_cp_def lower_runs_def kw_otel_def ascii_def)
  have occ2: "str_in ([71, 214] @ ascii ''BEKLITEPE'') ([71, 214] @ ascii ''BEKLITEPE'')"
    by (simp add: ascii_def)
  have plain2: "931 \<notin> set ([71, 214] @ ascii ''BEKLITEPE'')" by (simp add: ascii_def)
  have low2: "concat (map lower_cp ([71, 214] @ ascii ''BEKLITEPE'')) = kw_gobeklitepe"
    by (simp add: lower_cp_def lower_runs_def kw_gobeklitepe_def ascii_def)
  show ?thesis
    using generate_simple_response_dispatch [of "ascii ''Bir OTEL var mi''"]
      generate_simple_response_dispatch [of "[71, 214] @ ascii ''BEKLITEPE''"]
      gen trig occ plain low occ2 plain2 low2
    by (metis)
qed

text \<open>
  The dispatch is not blind to case in Turkish: the transport trigger in capitals
  lower-cases to a text with a dotted \<^verbatim>\<open>i\<close>, in which the trigger with its dotless i does
  not occur, so the capitals get the generic default where the trigger itself gets the
  transport answer.
\<close>

theorem upper_case_transport_counterexample:
  "generate_simple_response upper_case_transport = default_response
   \<and> generate_simple_response kw_ulasim = transport_response"
  by (simp add: generate_simple_response_def Let_def str_lower_def lower_cp_def lower_runs_def
      ascii_def upper_case_transport_def kw_gobeklitepe_def kw_otel_def kw_konaklama_def
      kw_yemek_def kw_ne_yenir_def kw_ulasim_def)

subsection \<open>The chat handler and the RAG gates\<close>

text \<open>
  Claim C3.  Without a RAG service the chat handler answers with what \<^verbatim>\<open>query_llm\<close>
  makes of the assembled prompt, while the itinerary and the route handler each raise
  503 \<^verbatim>\<open>RAG service unavailable\<close> and leave the database as it was: nothing is generated
  and nothing is saved.
\<close>

theorem rag_unavailable:
  "fst (chat_endpoint None post chat db) =
     \<lparr>cr_response = query_llm post (chat_prompt chat), cr_user_id = cm_user_id chat\<rparr>
   \<and> generate_itinerary None itinerary_request db =
       (Inl (HTTPException 503 (ascii ''RAG service unavailable'')), db)
   \<and> generate_route None route_request db =
       (Inl (HTTPException 503 (ascii ''RAG service unavailable'')), db)"
  by (simp add: chat_endpoint_def generate_itinerary_def generate_route_def Let_def)

text \<open>
  Claim C9.  Every chat request appends exactly one row to \<^verbatim>\<open>conversations\<close>, holding the
  request's user id, the user's message and the very response text that is returned; the
  other tables are untouched.  The handler returns the response together with the database
  that already holds the row.
\<close>

theorem chat_persists_conversation:
  "rows (conversations (snd (chat_endpoint rag post chat db))) =
     rows (conversations db) @
       [\<lparr>conv_id = last_id (conversations db) + 1, conv_user_id = cm_user_id chat,
         conv_message = cm_message chat,
         conv_response = cr_response (fst (chat_endpoint rag post chat db))\<rparr>]
   \<and> cr_user_id (fst (chat_endpoint rag post chat db)) = cm_user_id chat
   \<and> documents (snd (chat_endpoint rag post chat db)) = documents db
   \<and> document_chunks (snd (chat_endpoint rag post chat db)) = document_chunks db
   \<and> itineraries (snd (chat_endpoint rag post chat db)) = itineraries db
   \<and> routes (snd (chat_endpoint rag post chat db)) = routes db"
  by (simp add: chat_endpoint_def insert_row_def Let_def)

subsection \<open>Document ingestion\<close>

text \<open>
  The loop over the chunks: the chunks come back with their vector ids written in, the
  ids are listed in order, and the table gains one row per chunk, in order, with
  consecutive row ids.
\<close>

lemma save_chunks_ids:
  "save_chunks d cs t = (cs', vids, t') \<Longrightarrow>
     vids = map (\<lambda>c. vector_id d (ck_chunk_index c)) cs
     \<and> cs' = map (\<lambda>c. c\<lparr>ck_vector_id := Some (vector_id d (ck_chunk_index c))\<rparr>) cs"
proof (induction cs arbitrary: t cs' vids t')
  case Nil
  then show ?case by simp
next
  case (Cons chunk rest)
  obtain cs1 vids1 t2 where rec:
    "save_chunks d rest (snd (insert_row
        (\<lambda>i. \<lparr>dc_id = i, dc_document_id = d, dc_chunk_text = ck_text chunk,
              dc_chunk_index = ck_chunk_index chunk,
              dc_vector_id = vector_id d (ck_chunk_index chunk)\<rparr>) t)) = (cs1, vids1, t2)"
    by (metis prod_cases3)
  from Cons.IH [OF rec] Cons.prems rec show ?case
    by (simp add: Let_def)
qed

lemma save_chunks_table:
  "save_chunks d cs t = (cs', vids, t') \<Longrightarrow>
     rows t' = rows t @
       map (\<lambda>(i, c). \<lparr>dc_id = last_id t + 1 + int i, dc_document_id = d,
                       dc_chunk_text = ck_text c, dc_chunk_index = ck_chunk_index c,
                       dc_vector_id = vector_id d (ck_chunk_index c)\<rparr>)
         (enumerate 0 cs)
     \<and> last_id t' = last_id t + int (length cs)"
proof (induction cs arbitrary: t cs' vids t')
  case Nil
  then show ?case by simp
next
  case (Cons chunk rest)
  define t1 where "t1 = snd (insert_row
      (\<lambda>i. \<lparr>dc_id = i, dc_document_id = d, dc_chunk_text = ck_text chunk,
            dc_chunk_index = ck_chunk_index chunk,
            dc_vector_id = vector_id d (ck_chunk_index chunk)\<rparr>) t)"
  obtain cs1 vids1 t2 where rec: "save_chunks d rest t1 = (cs1, vids1, t2)"
    by (metis prod_cases3)
  have t2: "t' = t2"
    using Cons.prems rec by (simp add: Let_def t1_def)
  have t1_rows: "rows t1 = rows t @
      [\<lparr>dc_id = last_id t + 1, dc_document_id = d, dc_chunk_text = ck_text chunk,
        dc_chunk_index = ck_chunk_index chunk,
        dc_vector_id = vector_id d (ck_chunk_index chunk)\<rparr>]"
    and t1_id: "last_id t1 = last_id t + 1"
    by (simp_all add: t1_def insert_row_def Let_def)
  have shift: "map (\<lambda>(i, c). \<lparr>dc_id = last_id t + 1 + int i, dc_document_id = d,
                       dc_chunk_text = ck_text c, dc_chunk_index = ck_chunk_index c,
                       dc_vector_id = vector_id d (ck_chunk_index c)\<rparr>)
         (enumerate (Suc 0) rest) =
      map (\<lambda>(i, c). \<lparr>dc_id = last_id t1 + 1 + int i, dc_document_id = d,
                       dc_chunk_text = ck_text c, dc_chunk_index = ck_chunk_index c,
                       dc_vector_id = vector_id d (ck_chunk_index c)\<rparr>)
         (enumerate 0 rest)"
    by (simp add: enumerate_Suc_eq t1_id case_prod_beta add.assoc)
  from Cons.IH [OF rec] show ?case
    using t2 t1_rows t1_id shift by simp
qed

text \<open>What a successful ingestion has gone through.\<close>

lemma ingest_document_success:
  assumes "ingest_document (Some dp) (Some vs) doc db = (Inr resp, db')"
  shows "\<exists>chunks embedded cs' vids t'.
      dp_process_document dp (di_content doc) (di_title doc) (di_type doc) (di_source doc)
        = Inr chunks
      \<and> dp_embed_chunks dp chunks = Inr embedded
      \<and> save_chunks (last_id (documents db) + 1) embedded (document_chunks db)
          = (cs', vids, t')
      \<and> vs_add_documents vs cs' (last_id (documents db) + 1) = Inr ()
      \<and> dr_document_id resp = last_id (documents db) + 1
      \<and> dr_chunks_created resp = length cs'
      \<and> document_chunks db' = t'"
proof -
  from assms obtain chunks where p:
    "dp_process_document dp (di_content doc) (di_title doc) (di_type doc) (di_source doc)
       = Inr chunks"
    by (auto simp: ingest_document_def split: sum.splits)
  from assms p obtain embedded where e: "dp_embed_chunks dp chunks = Inr embedded"
    by (auto simp: ingest_document_def split: sum.splits)
  obtain cs' vids t' where sc:
    "save_chunks (last_id (documents db) + 1) embedded (document_chunks db) = (cs', vids, t')"
    by (metis prod_cases3)
  from assms p e sc have
    "vs_add_documents vs cs' (last_id (documents db) + 1) = Inr ()"
    "dr_document_id resp = last_id (documents db) + 1"
    "dr_chunks_created resp = length cs'" "document_chunks db' = t'"
    by (auto simp: ingest_document_def insert_row_def Let_def split: sum.splits)
  with p e sc show ?thesis by blast
qed

text \<open>
  Claim C2, as the code has it.  With the document processor and the vector store
  available, an exception raised while the document is processed or embedded makes the
  handler fail with status 500 and the detail \<^verbatim>\<open>Error ingesting document: \<close> followed by
  the exception's message, and the database is the one the handler started with.  An
  exception of the vector store's \<^verbatim>\<open>add_documents\<close>, on the call the handler makes (the
  embedded chunks with their vector ids, and the new document's id), gives the same 500.
\<close>

theorem ingest_failure_before_store:
  "(dp_process_document dp (di_content doc) (di_title doc) (di_type doc) (di_source doc) = Inl e
      \<longrightarrow> ingest_document (Some dp) (Some vs) doc db =
            (Inl (HTTPException 500 (ascii ''Error ingesting document: '' @ message e)), db))
   \<and> (dp_process_document dp (di_content doc) (di_title doc) (di_type doc) (di_source doc)
        = Inr chunks \<and> dp_embed_chunks dp chunks = Inl e
      \<longrightarrow> ingest_document (Some dp) (Some vs) doc db =
            (Inl (HTTPException 500 (ascii ''Error ingesting document: '' @ message e)), db))
   \<and> (dp_process_document dp (di_content doc) (di_title doc) (di_type doc) (di_source doc)
        = Inr chunks \<and> dp_embed_chunks dp chunks = Inr embedded
        \<and> vs_add_documents vs
            (map (\<lambda>c. c\<lparr>ck_vector_id :=
                          Some (vector_id (last_id (documents db) + 1) (ck_chunk_index c))\<rparr>)
               embedded)
            (last_id (documents db) + 1) = Inl e
      \<longrightarrow> fst (ingest_document (Some dp) (Some vs) doc db) =
            Inl (HTTPException 500 (ascii ''Error ingesting document: '' @ message e)))"
proof -
  have third: "fst (ingest_document (Some dp) (Some vs) doc db) =
            Inl (HTTPException 500 (ascii ''Error ingesting document: '' @ message e))"
    if p: "dp_process_document dp (di_content doc) (di_title doc) (di_type doc) (di_source doc)
        = Inr chunks"
      and em: "dp_embed_chunks dp chunks = Inr embedded"
      and add: "vs_add_documents vs
            (map (\<lambda>c. c\<lparr>ck_vector_id :=
                          Some (vector_id (last_id (documents db) + 1) (ck_chunk_index c))\<rparr>)
               embedded)
            (last_id (documents db) + 1) = Inl e"
  proof -
    obtain cs' vids t' where sc:
      "save_chunks (last_id (documents db) + 1) embedded (document_chunks db) = (cs', vids, t')"
      by (metis prod_cases3)
    have "cs' = map (\<lambda>c. c\<lparr>ck_vector_id :=
        Some (vector_id (last_id (documents db) + 1) (ck_chunk_index c))\<rparr>) embedded"
      using save_chunks_ids [OF sc] by simp
    then have "vs_add_documents vs cs' (last_id (documents db) + 1) = Inl e"
      using add by simp
    then show ?thesis
      using p em sc
      by (simp add: ingest_document_def ingest_error_def insert_row_def Let_def)
  qed
  show ?thesis
    using third by (simp add: ingest_document_def ingest_error_def Let_def)
qed

text \<open>
  Ingestion into the empty database with a processor that raises on the text, with one
  that raises on embedding, and with a vector store that raises.
\<close>

theorem ingest_failure_before_store_witness:
  "ingest_document (Some broken_processor) (Some failing_store) example_doc empty_db =
     (Inl (HTTPException 500 (ascii ''Error ingesting document: bad text'')), empty_db)
   \<and> ingest_document (Some unembedding_processor) (Some failing_store) example_doc empty_db =
     (Inl (HTTPException 500 (ascii ''Error ingesting document: no model'')), empty_db)
   \<and> fst (ingest_document (Some example_processor) (Some failing_store) example_doc empty_db)
       = Inl (HTTPException 500 (ascii ''Error ingesting document: qdrant down''))"
proof -
  have broken: "dp_process_document broken_processor (di_content example_doc)
      (di_title example_doc) (di_type example_doc) (di_source example_doc) =
      Inl (PyException (ascii ''bad text''))"
    by (simp add: broken_processor_def)
  have processed: "dp_process_document unembedding_processor (di_content example_doc)
      (di_title example_doc) (di_type example_doc) (di_source example_doc) =
      Inr [\<lparr>tc_text = ascii ''otel'', tc_chunk_index = 0\<rparr>]"
    by (simp add: unembedding_processor_def example_processor_def example_doc_def)
  have unembedded: "dp_embed_chunks unembedding_processor
      [\<lparr>tc_text = ascii ''otel'', tc_chunk_index = 0\<rparr>] = Inl (PyException (ascii ''no model''))"
    by (simp add: unembedding_processor_def)
  have processed': "dp_process_document example_processor (di_content example_doc)
      (di_title example_doc) (di_type example_doc) (di_source example_doc) =
      Inr [\<lparr>tc_text = ascii ''otel'', tc_chunk_index = 0\<rparr>]"
    by (simp add: example_processor_def example_doc_def)
  have embedded: "dp_embed_chunks example_processor
      [\<lparr>tc_text = ascii ''otel'', tc_chunk_index = 0\<rparr>] =
      Inr [\<lparr>ck_text = ascii ''otel'', ck_chunk_index = 0, ck_embedding = [1, 0],
            ck_vector_id = None\<rparr>]"
    by (simp add: example_processor_def)
  have down: "\<forall>cs i. vs_add_documents failing_store cs i =
      Inl (PyException (ascii ''qdrant down''))"
    by (simp add: failing_store_def)
  show ?thesis
    using ingest_failure_before_store [of broken_processor example_doc
        "PyException (ascii ''bad text'')" failing_store empty_db]
      ingest_failure_before_store [of unembedding_processor example_doc
        "PyException (ascii ''no model'')" failing_store empty_db
        "[\<lparr>tc_text = ascii ''otel'', tc_chunk_index = 0\<rparr>]"]
      ingest_failure_before_store [of example_processor example_doc
        "PyException (ascii ''qdrant down'')" failing_store empty_db
        "[\<lparr>tc_text = ascii ''otel'', tc_chunk_index = 0\<rparr>]"
        "[\<lparr>ck_text = ascii ''otel'', ck_chunk_index = 0, ck_embedding = [1, 0],
            ck_vector_id = None\<rparr>]"]
      broken processed unembedded processed' embedded down
    by (simp add: ascii_def)
qed

text \<open>
  The database is not unchanged on every ingestion error: the rows are committed before
  the chunks go to the vector store, so when \<^verbatim>\<open>add_documents\<close> raises the handler fails
  with 500 and the document row is in the database all the same.
\<close>

theorem ingest_store_failure_counterexample:
  "fst (ingest_document (Some example_processor) (Some failing_store) example_doc empty_db) =
     Inl (HTTPException 500 (ascii ''Error ingesting document: qdrant down''))
   \<and> rows (documents
        (snd (ingest_document (Some example_processor) (Some failing_store) example_doc
           empty_db))) =
       [\<lparr>doc_id = 1, doc_title = ascii ''Guide'', doc_content = ascii ''otel'',
         doc_type = ascii ''general'', doc_source = None\<rparr>]
   \<and> rows (documents empty_db) = []
   \<and> snd (ingest_document (Some example_processor) (Some failing_store) example_doc empty_db)
       \<noteq> empty_db"
proof -
  have r: "rows (documents
        (snd (ingest_document (Some example_processor) (Some failing_store) example_doc
           empty_db))) =
       [\<lparr>doc_id = 1, doc_title = ascii ''Guide'', doc_content = ascii ''otel'',
         doc_type = ascii ''general'', doc_source = None\<rparr>]"
    by (simp add: ingest_document_def example_processor_def failing_store_def example_doc_def
        empty_db_def insert_row_def Let_def)
  have e: "rows (documents empty_db) = []"
    by (simp add: empty_db_def)
  have f: "fst (ingest_document (Some example_processor) (Some failing_store) example_doc empty_db) =
     Inl (HTTPException 500 (ascii ''Error ingesting document: qdrant down''))"
    by (simp add: ingest_document_def example_processor_def failing_store_def example_doc_def
        empty_db_def insert_row_def ingest_error_def Let_def ascii_def)
  from r e have "snd (ingest_document (Some example_processor) (Some failing_store) example_doc empty_db)
       \<noteq> empty_db" by auto
  with r e f show ?thesis by blast
qed

text \<open>
  Claim C6.  A successful ingestion has processed the document into chunks and embedded
  them, and for these embedded chunks, in their order, \<^verbatim>\<open>document_chunks\<close> gains exactly
  one row each: the row carries the new document's id, the chunk's text and index, and as
  its vector id the decimal document id, an underscore and the decimal chunk index.  The
  same ids are written into the chunks handed to the vector store.  The vector id
  determines the pair: two pairs of document id and chunk index with the same vector id
  are the same pair.
\<close>

theorem vector_id_derivation:
  assumes "ingest_document (Some dp) (Some vs) doc db = (Inr resp, db')"
  shows "(\<exists>chunks embedded.
      dp_process_document dp (di_content doc) (di_title doc) (di_type doc) (di_source doc)
        = Inr chunks
      \<and> dp_embed_chunks dp chunks = Inr embedded
      \<and> dr_document_id resp = last_id (documents db) + 1
      \<and> dr_chunks_created resp = length embedded
      \<and> rows (document_chunks db') = rows (document_chunks db) @
          map (\<lambda>(i, c). \<lparr>dc_id = last_id (document_chunks db) + 1 + int i,
                          dc_document_id = dr_document_id resp,
                          dc_chunk_text = ck_text c, dc_chunk_index = ck_chunk_index c,
                          dc_vector_id = vector_id (dr_document_id resp) (ck_chunk_index c)\<rparr>)
            (enumerate 0 embedded)
      \<and> vs_add_documents vs
          (map (\<lambda>c. c\<lparr>ck_vector_id :=
                        Some (vector_id (dr_document_id resp) (ck_chunk_index c))\<rparr>) embedded)
          (dr_document_id resp) = Inr ())
   \<and> (\<forall>a b c d. vector_id a b = vector_id c d \<longrightarrow> a = c \<and> b = d)"
proof -
  from ingest_document_success [OF assms] obtain chunks embedded cs' vids t' where
    p: "dp_process_document dp (di_content doc) (di_title doc) (di_type doc) (di_source doc)
        = Inr chunks"
    and e: "dp_embed_chunks dp chunks = Inr embedded"
    and sc: "save_chunks (last_id (documents db) + 1) embedded (document_chunks db)
          = (cs', vids, t')"
    and add: "vs_add_documents vs cs' (last_id (documents db) + 1) = Inr ()"
    and d: "dr_document_id resp = last_id (documents db) + 1"
    and n: "dr_chunks_created resp = length cs'"
    and t: "document_chunks db' = t'"
    by blast
  have cs': "cs' = map (\<lambda>c. c\<lparr>ck_vector_id :=
      Some (vector_id (dr_document_id resp) (ck_chunk_index c))\<rparr>) embedded"
    using save_chunks_ids [OF sc] d by simp
  have rows: "rows (document_chunks db') = rows (document_chunks db) @
          map (\<lambda>(i, c). \<lparr>dc_id = last_id (document_chunks db) + 1 + int i,
                          dc_document_id = dr_document_id resp,
                          dc_chunk_text = ck_text c, dc_chunk_index = ck_chunk_index c,
                          dc_vector_id = vector_id (dr_document_id resp) (ck_chunk_index c)\<rparr>)
            (enumerate 0 embedded)"
    using save_chunks_table [OF sc] t d by simp
  have "dr_chunks_created resp = length embedded" using n cs' by simp
  moreover have "vs_add_documents vs
          (map (\<lambda>c. c\<lparr>ck_vector_id :=
                        Some (vector_id (dr_document_id resp) (ck_chunk_index c))\<rparr>) embedded)
          (dr_document_id resp) = Inr ()"
    using add cs' d by simp
  moreover have "\<forall>a b c d. vector_id a b = vector_id c d \<longrightarrow> a = c \<and> b = d"
    using vector_id_inj by blast
  ultimately show ?thesis using p e d rows by blast
qed

text \<open>Ingesting the one-chunk example document into the empty database.\<close>

theorem vector_id_derivation_witness:
  "ingest_document (Some example_processor) (Some working_store) example_doc empty_db =
     (Inr \<lparr>dr_document_id = 1, dr_title = ascii ''Guide'', dr_chunks_created = 1,
           dr_status = ascii ''success''\<rparr>, one_document_db)
   \<and> rows (document_chunks one_document_db) =
       [\<lparr>dc_id = 1, dc_document_id = 1, dc_chunk_text = ascii ''otel'', dc_chunk_index = 0,
         dc_vector_id = ascii ''1_0''\<rparr>]
   \<and> (\<exists>chunks embedded.
        dp_process_document example_processor (di_content example_doc) (di_title example_doc)
          (di_type example_doc) (di_source example_doc) = Inr chunks
        \<and> dp_embed_chunks example_processor chunks = Inr embedded
        \<and> length embedded = 1
        \<and> rows (document_chunks one_document_db) =
            map (\<lambda>(i, c). \<lparr>dc_id = 1 + int i, dc_document_id = 1, dc_chunk_text = ck_text c,
                            dc_chunk_index = ck_chunk_index c,
                            dc_vector_id = vector_id 1 (ck_chunk_index c)\<rparr>)
              (enumerate 0 embedded))"
proof -
  have v: "vector_id 1 0 = ascii ''1_0''"
    by (simp add: vector_id_def str_int_def str_nat_small ascii_def)
  have run: "ingest_document (Some example_processor) (Some working_store) example_doc empty_db =
     (Inr \<lparr>dr_document_id = 1, dr_title = ascii ''Guide'', dr_chunks_created = 1,
           dr_status = ascii ''success''\<rparr>, one_document_db)"
    by (simp add: ingest_document_def example_processor_def working_store_def example_doc_def
        empty_db_def one_document_db_def insert_row_def Let_def v)
  have rows: "rows (document_chunks one_document_db) =
       [\<lparr>dc_id = 1, dc_document_id = 1, dc_chunk_text = ascii ''otel'', dc_chunk_index = 0,
         dc_vector_id = ascii ''1_0''\<rparr>]"
    by (simp add: one_document_db_def empty_db_def)
  have start: "rows (document_chunks empty_db) = []" "last_id (document_chunks empty_db) = 0"
    by (simp_all add: empty_db_def)
  from vector_id_derivation [OF run] obtain chunks embedded where
    "dp_process_document example_processor (di_content example_doc) (di_title example_doc)
          (di_type example_doc) (di_source example_doc) = Inr chunks"
    "dp_embed_chunks example_processor chunks = Inr embedded"
    "length embedded = 1"
    "rows (document_chunks one_document_db) =
            map (\<lambda>(i, c). \<lparr>dc_id = 1 + int i, dc_document_id = 1, dc_chunk_text = ck_text c,
                            dc_chunk_index = ck_chunk_index c,
                            dc_vector_id = vector_id 1 (ck_chunk_index c)\<rparr>)
              (enumerate 0 embedded)"
    using start by auto
  then show ?thesis using run rows by blast
qed

subsection \<open>Document search\<close>

text \<open>The count of a search response is the length of its result list, for any store.\<close>

lemma search_count_is_length:
  "search_documents processor store search = Inr resp \<Longrightarrow>
     sp_count resp = length (sp_results resp) \<and> sp_query resp = ds_query search"
  by (auto simp: search_documents_def Let_def split: option.splits sum.splits if_splits)

lemma descending_sort_key:
  "sorted_wrt (\<lambda>a b. sr_score b \<le> sr_score a) (sort_key (\<lambda>r. - sr_score r) xs)"
proof -
  have "sorted (map (\<lambda>r. - sr_score r) (sort_key (\<lambda>r. - sr_score r) xs))"
    by (rule sorted_sort_key)
  then show ?thesis by (simp add: sorted_map)
qed

lemma spec_search_results:
  "spec_search similarity index query_vector limit filter_dict = Inr results \<Longrightarrow>
     length results \<le> nat limit \<and> sorted_wrt (\<lambda>a b. sr_score b \<le> sr_score a) results"
proof -
  assume "spec_search similarity index query_vector limit filter_dict = Inr results"
  then obtain xs where r: "results = take (nat limit) (sort_key (\<lambda>r. - sr_score r) xs)"
    by (auto simp: spec_search_def)
  have "sorted_wrt (\<lambda>a b. sr_score b \<le> sr_score a) results"
    unfolding r by (rule sorted_wrt_take) (rule descending_sort_key)
  moreover have "length results \<le> nat limit" unfolding r by simp
  ultimately show ?thesis by blast
qed

text \<open>
  Claim C7.  A validated search request has \<^verbatim>\<open>top_k\<close> between 1 and 50, and 5 when none
  was given.  When the vector store searches as the spec says, a successful search
  response has a count equal to the number of its results, has at most \<^verbatim>\<open>top_k\<close>
  results, and lists them by non-increasing score.
\<close>

theorem search_results_bounded_sorted:
  assumes "validate_search_request query top_k filter_type = Some search"
    and "search_documents (Some dp) (Some (vs\<lparr>vs_search := spec_search similarity index\<rparr>))
           search = Inr resp"
  shows "1 \<le> ds_top_k search \<and> ds_top_k search \<le> 50
     \<and> (top_k = None \<longrightarrow> ds_top_k search = 5)
     \<and> sp_count resp = length (sp_results resp)
     \<and> int (length (sp_results resp)) \<le> ds_top_k search
     \<and> sorted_wrt (\<lambda>a b. sr_score b \<le> sr_score a) (sp_results resp)"
proof -
  from assms(1) have k: "1 \<le> ds_top_k search" "ds_top_k search \<le> 50"
    "top_k = None \<longrightarrow> ds_top_k search = 5"
    by (auto simp: validate_search_request_def Let_def split: if_splits option.splits)
  from assms(2) obtain query_embedding filter_dict where
    s: "spec_search similarity index query_embedding (ds_top_k search) filter_dict =
          Inr (sp_results resp)"
    by (auto simp: search_documents_def Let_def split: sum.splits)
  from spec_search_results [OF s] have
    b: "length (sp_results resp) \<le> nat (ds_top_k search)"
    and o: "sorted_wrt (\<lambda>a b. sr_score b \<le> sr_score a) (sp_results resp)"
    by blast+
  from b k(1) have "int (length (sp_results resp)) \<le> ds_top_k search" by linarith
  moreover have "sp_count resp = length (sp_results resp)"
    using search_count_is_length [OF assms(2)] by blast
  ultimately show ?thesis using k o by blast
qed

text \<open>A search with \<^verbatim>\<open>top_k = 2\<close> over the three records of the example index.\<close>

theorem search_results_bounded_sorted_witness:
  "validate_search_request (ascii ''yol'') (Some 2) None = Some example_search
   \<and> search_documents (Some example_processor) (Some working_store) example_search =
       Inr \<lparr>sp_query = ascii ''yol'',
            sp_results =
              [\<lparr>sr_document_id = 2, sr_chunk_text = ascii ''yol'', sr_score = 1\<rparr>,
               \<lparr>sr_document_id = 2, sr_chunk_text = ascii ''harran'', sr_score = 1\<rparr>],
            sp_count = 2\<rparr>
   \<and> sorted_wrt (\<lambda>a b. sr_score b \<le> sr_score a)
       [\<lparr>sr_document_id = 2, sr_chunk_text = ascii ''yol'', sr_score = 1\<rparr>,
        \<lparr>sr_document_id = 2, sr_chunk_text = ascii ''harran'', sr_score = 1\<rparr>]"
proof -
  have v: "validate_search_request (ascii ''yol'') (Some 2) None = Some example_search"
    by (simp add: validate_search_request_def example_search_def)
  have w: "working_store = working_store\<lparr>vs_search := spec_search dot_product example_index\<rparr>"
    by (simp add: working_store_def)
  have run: "search_documents (Some example_processor) (Some working_store) example_search =
       Inr \<lparr>sp_query = ascii ''yol'',
            sp_results =
              [\<lparr>sr_document_id = 2, sr_chunk_text = ascii ''yol'', sr_score = 1\<rparr>,
               \<lparr>sr_document_id = 2, sr_chunk_text = ascii ''harran'', sr_score = 1\<rparr>],
            sp_count = 2\<rparr>"
    by (simp add: search_documents_def example_processor_def working_store_def
        example_search_def spec_search_def example_index_def dot_product_def Let_def)
  have run': "search_documents (Some example_processor)
        (Some (working_store\<lparr>vs_search := spec_search dot_product example_index\<rparr>))
        example_search =
       Inr \<lparr>sp_query = ascii ''yol'',
            sp_results =
              [\<lparr>sr_document_id = 2, sr_chunk_text = ascii ''yol'', sr_score = 1\<rparr>,
               \<lparr>sr_document_id = 2, sr_chunk_text = ascii ''harran'', sr_score = 1\<rparr>],
            sp_count = 2\<rparr>"
    using run w by simp
  show ?thesis
    using search_results_bounded_sorted [OF v run'] v run by simp
qed

subsection \<open>Recommendations\<close>

text \<open>
  Claim C8.  Whatever the request's interests and whatever rows the query returns, every
  recommendation of the response carries the match score 0.85.
\<close>

theorem recommendation_score_constant:
  assumes "get_recommendations execute request = Inr resp"
  shows "\<forall>r \<in> set (rr_recommendations resp). rec_match_score r = 0.85"
  using assms
  by (auto simp: get_recommendations_def recommendation_of_def split: sum.splits)

text \<open>Two fetched destinations with different tags get the same score.\<close>

theorem recommendation_score_constant_witness:
  "map rec_match_score
     (rr_recommendations
        \<lparr>rr_recommendations = map recommendation_of example_destinations,
         rr_user_id = ascii ''user123''\<rparr>) = [0.85, 0.85]
   \<and> map rec_tags (map recommendation_of example_destinations) =
       [[ascii ''tarih'', ascii ''unesco''], []]"
proof -
  have run: "get_recommendations (\<lambda>query. Inr example_destinations)
      example_recommendation_request =
      Inr \<lparr>rr_recommendations = map recommendation_of example_destinations,
           rr_user_id = ascii ''user123''\<rparr>"
    by (simp add: get_recommendations_def example_recommendation_request_def)
  have tags: "map rec_tags (map recommendation_of example_destinations) =
       [[ascii ''tarih'', ascii ''unesco''], []]"
    by (simp add: recommendation_of_def example_destinations_def ascii_def)
  have two: "length example_destinations = 2"
    by (simp add: example_destinations_def)
  show ?thesis
    using recommendation_score_constant [OF run] tags two
    by (simp add: example_destinations_def)
qed

subsection \<open>Document deletion\<close>

text \<open>
  Claim C10.  When the vector store's delete raises, the handler fails with status 500 and
  the detail \<^verbatim>\<open>Error deleting document: \<close> followed by the message, and the database is
  unchanged; the rows of the document and of its chunks are deleted only when the vector
  store's delete has returned.
\<close>

theorem delete_vector_store_first:
  "(vs_delete_document vs document_id = Inl e \<longrightarrow>
      delete_document (Some vs) document_id db =
        (Inl (HTTPException 500 (ascii ''Error deleting document: '' @ message e)), db))
   \<and> (vs_delete_document vs document_id = Inr u \<longrightarrow>
      delete_document (Some vs) document_id db =
        (Inr \<lparr>del_document_id = document_id, del_status = ascii ''deleted''\<rparr>,
         db\<lparr>document_chunks :=
               delete_rows (\<lambda>r. dc_document_id r = document_id) (document_chunks db),
             documents := delete_rows (\<lambda>r. doc_id r = document_id) (documents db)\<rparr>))"
  by (simp add: delete_document_def)

text \<open>Deleting document 1 with a store that raises, and with one that works.\<close>

theorem delete_vector_store_first_witness:
  "delete_document (Some failing_store) 1 one_document_db =
     (Inl (HTTPException 500 (ascii ''Error deleting document: qdrant down'')),
      one_document_db)
   \<and> rows (documents (snd (delete_document (Some working_store) 1 one_document_db))) = []
   \<and> rows (document_chunks (snd (delete_document (Some working_store) 1 one_document_db)))
       = []"
proof -
  have f: "vs_delete_document failing_store 1 = Inl (PyException (ascii ''qdrant down''))"
    by (simp add: failing_store_def)
  have w: "vs_delete_document working_store 1 = Inr ()"
    by (simp add: working_store_def)
  show ?thesis
    using delete_vector_store_first [of failing_store 1 "PyException (ascii ''qdrant down'')"
        one_document_db "()"]
      delete_vector_store_first [of working_store 1 "PyException (ascii ''qdrant down'')"
        one_document_db "()"] f w
    by (simp add: one_document_db_def empty_db_def delete_rows_def ascii_def)
qed

end
